theory Spec2Isabelle
  imports Complex_Main "HOL-Library.List_Lexorder" "HOL-Library.Char_ord"
begin

section \<open>Time values\<close>

text \<open>
  A JavaScript \<open>Date\<close> is modelled by its time value: the number of milliseconds since
  the epoch, an integer. Subtracting two dates gives the difference of the time values and
  comparing two dates compares them. The local-time accessors (\<open>getDay\<close>, \<open>getHours\<close>,
  \<open>getMinutes\<close>, \<open>setHours\<close>, \<open>setDate\<close>, \<open>setMonth\<close>) take the offset \<open>tz\<close> of
  the server's zone from UTC in milliseconds, which is assumed constant (no daylight-saving
  transitions; the schemas default to Asia/Karachi, which has none). Time values are assumed to
  stay inside the range in which a \<open>Date\<close> is valid.
\<close>

type_synonym time = int

definition msPerMinute :: int where "msPerMinute = 60000"
definition msPerHour :: int where "msPerHour = 3600000"
definition msPerDay :: int where "msPerDay = 86400000"

definition localDay :: "int \<Rightarrow> time \<Rightarrow> int" where
  "localDay tz t = (t + tz) div msPerDay"

definition timeInDay :: "int \<Rightarrow> time \<Rightarrow> int" where
  "timeInDay tz t = (t + tz) mod msPerDay"

text \<open>\<open>getDay\<close>: 0 is Sunday; day 0 of the epoch was a Thursday.\<close>

definition getDay :: "int \<Rightarrow> time \<Rightarrow> int" where
  "getDay tz t = (localDay tz t + 4) mod 7"

definition getHours :: "int \<Rightarrow> time \<Rightarrow> nat" where
  "getHours tz t = nat (timeInDay tz t div msPerHour)"

definition getMinutes :: "int \<Rightarrow> time \<Rightarrow> nat" where
  "getMinutes tz t = nat ((timeInDay tz t mod msPerHour) div msPerMinute)"

text \<open>\<open>d.setHours(h, m, s, ms)\<close>: same local day, the given time of day.\<close>

definition setHours :: "int \<Rightarrow> time \<Rightarrow> int \<Rightarrow> int \<Rightarrow> int \<Rightarrow> int \<Rightarrow> time" where
  "setHours tz t h m s ms =
     localDay tz t * msPerDay + h * msPerHour + m * msPerMinute + s * 1000 + ms - tz"

text \<open>
  \<open>String(n).padStart(2, '0')\<close> for the hour and minute numbers, which are below 100.
\<close>

definition digit :: "nat \<Rightarrow> char" where
  "digit n = char_of (48 + n)"

text \<open>
  \<open>Number(s)\<close> on the pieces of an \<open>HH:MM\<close> string: the empty string is 0, a string
  of decimal digits is its value, and anything else is taken as \<open>NaN\<close> (\<open>None\<close>). The
  schema's pattern for these strings admits digits and one colon only.
\<close>

definition isDigit :: "char \<Rightarrow> bool" where
  "isDigit c = (48 \<le> (of_char c :: nat) \<and> (of_char c :: nat) \<le> 57)"

definition toNumber :: "string \<Rightarrow> int option" where
  "toNumber s =
     (if list_all isDigit s
      then Some (foldl (\<lambda>acc c. acc * 10 + (int (of_char c) - 48)) 0 s)
      else None)"

text \<open>\<open>s.split(':')\<close>.\<close>

fun splitColon :: "string \<Rightarrow> string list" where
  "splitColon [] = [[]]"
| "splitColon (c # cs) =
     (if c = CHR '':'' then [] # splitColon cs
      else (case splitColon cs of [] \<Rightarrow> [[c]] | p # ps \<Rightarrow> (c # p) # ps))"

text \<open>
  \<open>const [h, m] = s.split(':').map(Number)\<close>: a missing second piece is \<open>undefined\<close>,
  which \<open>setHours\<close> treats as \<open>NaN\<close>.
\<close>

definition parseHM :: "string \<Rightarrow> (int \<times> int) option" where
  "parseHM s =
     (case map toNumber (splitColon s) of
        Some h # Some m # _ \<Rightarrow> Some (h, m)
      | _ \<Rightarrow> None)"

definition pad2 :: "nat \<Rightarrow> string" where
  "pad2 n = [digit (n div 10), digit (n mod 10)]"

text \<open>The \<open>timeStr\<close> of \<open>calculatePrice\<close> and \<open>isAvailableForSlot\<close>: local \<open>HH:MM\<close>.\<close>

definition timeStr :: "int \<Rightarrow> time \<Rightarrow> string" where
  "timeStr tz t = pad2 (getHours tz t) @ '':'' @ pad2 (getMinutes tz t)"

text \<open>
  \<open>d.toISOString().split('T')[0]\<close> is the UTC calendar date; two dates give the same
  string exactly when their time values lie in the same UTC day.
\<close>

definition isoDate :: "time \<Rightarrow> int" where
  "isoDate t = t div msPerDay"

subsection \<open>Civil calendar, for \<open>setDate\<close> and \<open>setMonth\<close>\<close>

text \<open>Day number of the civil date (year, month 1..12, day), proleptic Gregorian.\<close>

definition days_from_civil :: "int \<Rightarrow> int \<Rightarrow> int \<Rightarrow> int" where
  "days_from_civil y0 m d =
     (let y = (if m \<le> 2 then y0 - 1 else y0);
          era = y div 400;
          yoe = y - era * 400;
          doy = (153 * (if m > 2 then m - 3 else m + 9) + 2) div 5 + d - 1;
          doe = yoe * 365 + yoe div 4 - yoe div 100 + doy
      in era * 146097 + doe - 719468)"

definition civil_from_days :: "int \<Rightarrow> int \<times> int \<times> int" where
  "civil_from_days z0 =
     (let z = z0 + 719468;
          era = z div 146097;
          doe = z - era * 146097;
          yoe = (doe - doe div 1460 + doe div 36524 - doe div 146096) div 365;
          doy = doe - (365 * yoe + yoe div 4 - yoe div 100);
          mp = (5 * doy + 2) div 153;
          d = doy - (153 * mp + 2) div 5 + 1;
          m = (if mp < 10 then mp + 3 else mp - 9);
          y = yoe + era * 400
      in (if m \<le> 2 then y + 1 else y, m, d))"

text \<open>
  \<open>d.setDate(d.getDate() + n)\<close>: the day of the month may leave the month. The new day
  number is that of the first of the month plus the new day of the month minus one, which
  is the old day number plus \<open>n\<close>; the time of day is kept. So the date moves by \<open>n\<close>
  whole days.
\<close>

definition addDays :: "int \<Rightarrow> time \<Rightarrow> int \<Rightarrow> time" where
  "addDays tz t n = (localDay tz t + n) * msPerDay + timeInDay tz t - tz"

text \<open>
  \<open>d.setMonth(d.getMonth() + n)\<close>: the month may leave the year and the kept day of the
  month may leave the new month (31 January plus one month is 2 or 3 March).
\<close>

definition addMonths :: "int \<Rightarrow> time \<Rightarrow> int \<Rightarrow> time" where
  "addMonths tz t n =
     (case civil_from_days (localDay tz t) of
        (y, m, d) \<Rightarrow>
          (let mi = (m - 1) + n
           in (days_from_civil (y + mi div 12) (mi mod 12 + 1) 1 + d - 1) * msPerDay
                + timeInDay tz t - tz))"

section \<open>Absent and null values\<close>

text \<open>
  A field that may be absent (\<open>undefined\<close>), \<open>null\<close>, or carry a value. The strict
  equality \<open>===\<close> of two such fields of one type is the equality of these values. In a
  condition, \<open>undefined\<close> and \<open>null\<close> are falsy and a value is truthy when it is not the
  empty string, zero or \<open>false\<close>. In the comparison \<open>>=\<close> of two number fields,
  \<open>undefined\<close> is read as \<open>NaN\<close>, which compares false with everything, and \<open>null\<close>
  as 0.
\<close>

datatype 'a jsval = Undefined | Null | Value 'a

definition truthyStr :: "string jsval \<Rightarrow> bool" where
  "truthyStr s = (case s of Value x \<Rightarrow> x \<noteq> [] | _ \<Rightarrow> False)"

definition truthyNum :: "rat jsval \<Rightarrow> bool" where
  "truthyNum n = (case n of Value x \<Rightarrow> x \<noteq> 0 | _ \<Rightarrow> False)"

definition truthyBool :: "bool jsval \<Rightarrow> bool" where
  "truthyBool b = (case b of Value x \<Rightarrow> x | _ \<Rightarrow> False)"

definition toNum :: "rat jsval \<Rightarrow> rat option" where
  "toNum n = (case n of Undefined \<Rightarrow> None | Null \<Rightarrow> Some 0 | Value x \<Rightarrow> Some x)"

definition jsGe :: "rat jsval \<Rightarrow> rat jsval \<Rightarrow> bool" where
  "jsGe a b = (case (toNum a, toNum b) of (Some x, Some y) \<Rightarrow> x \<ge> y | _ \<Rightarrow> False)"

section \<open>Bookings (models/Booking.js)\<close>

type_synonym oid = nat

datatype status =
  PendingConfirmation | Confirmed | InProgress | Completed | Cancelled | NoShow | Expired

datatype frequency = Daily | Weekly | Monthly

text \<open>
  The recurring pattern. \<open>interval\<close>, \<open>endDate\<close> and \<open>occurrences\<close> are optional;
  \<open>daysOfWeek\<close> is an array (empty when not given).
\<close>

record recurringPattern =
  rp_frequency :: "frequency option"
  rp_interval :: "int option"
  rp_daysOfWeek :: "int list"
  rp_endDate :: "time option"
  rp_occurrences :: "int option"

text \<open>
  The fields of the booking schema that the scheduling logic reads or writes. The booking
  number (random, generated in the pre-save hook) and the descriptive fields are left out.
\<close>

record booking =
  b_id :: oid
  b_user :: oid
  b_court :: oid
  b_startTime :: time
  b_endTime :: time
  b_duration :: "int option"
  b_status :: status
  b_totalAmount :: rat
  b_groupSize :: int
  b_recurringPattern :: "recurringPattern option"
  b_parentBooking :: "oid option"
  b_recurringBookings :: "oid list"
  b_checkIn :: "(time \<times> oid) option"

text \<open>The collection of stored bookings, in storage order.\<close>

type_synonym store = "booking list"

text \<open>The schema validator of \<open>endTime\<close>: \<open>value > this.startTime\<close>.\<close>

definition endTime_valid :: "booking \<Rightarrow> bool" where
  "endTime_valid b = (b_endTime b > b_startTime b)"

subsection \<open>checkConflicts\<close>

definition occupying :: "status \<Rightarrow> bool" where
  "occupying st = (st \<in> {PendingConfirmation, Confirmed, InProgress})"

text \<open>The \<open>$or\<close> of the query, its four branches in the order of the source.\<close>

definition conflictQuery :: "time \<Rightarrow> time \<Rightarrow> booking \<Rightarrow> bool" where
  "conflictQuery s e b =
     ((b_startTime b \<le> s \<and> b_endTime b > s) \<or>
      (b_startTime b < e \<and> b_endTime b \<ge> e) \<or>
      (b_startTime b \<ge> s \<and> b_endTime b \<le> e) \<or>
      (b_startTime b \<le> s \<and> b_endTime b \<ge> e))"

definition checkConflicts :: "store \<Rightarrow> oid \<Rightarrow> time \<Rightarrow> time \<Rightarrow> oid option \<Rightarrow> booking list" where
  "checkConflicts db courtId s e excludeBookingId =
     filter (\<lambda>b. b_court b = courtId \<and> occupying (b_status b) \<and> conflictQuery s e b \<and>
                 (case excludeBookingId of None \<Rightarrow> True | Some x \<Rightarrow> b_id b \<noteq> x)) db"

subsection \<open>The pre-save hook\<close>

text \<open>\<open>Math.round\<close>: the nearest integer, a half rounded up.\<close>

definition mathRound :: "rat \<Rightarrow> int" where
  "mathRound x = \<lfloor>x + 1 / 2\<rfloor>"

text \<open>
  \<open>isModified\<close> of the two time paths: true for a new document (\<open>old = None\<close>), and
  for a stored one when the value differs from the stored value.
\<close>

definition timesModified :: "booking option \<Rightarrow> booking \<Rightarrow> bool" where
  "timesModified old b =
     (case old of
        None \<Rightarrow> True
      | Some x \<Rightarrow> b_startTime b \<noteq> b_startTime x \<or> b_endTime b \<noteq> b_endTime x)"

definition preSave :: "booking option \<Rightarrow> booking \<Rightarrow> booking" where
  "preSave old b =
     (if timesModified old b
      then b\<lparr>b_duration :=
               Some (mathRound (of_int (b_endTime b - b_startTime b) / of_int msPerMinute))\<rparr>
      else b)"

subsection \<open>findAvailableSlots\<close>

record slot =
  sl_startTime :: time
  sl_endTime :: time
  sl_available :: bool

text \<open>The test inside \<open>bookings.some\<close>, its three branches in the order of the source.\<close>

definition slotConflict :: "time \<Rightarrow> time \<Rightarrow> booking \<Rightarrow> bool" where
  "slotConflict currentSlot slotEnd b =
     ((currentSlot \<ge> b_startTime b \<and> currentSlot < b_endTime b) \<or>
      (slotEnd > b_startTime b \<and> slotEnd \<le> b_endTime b) \<or>
      (currentSlot \<le> b_startTime b \<and> slotEnd \<ge> b_endTime b))"

text \<open>
  The \<open>while (currentSlot < closeTime)\<close> loop. It does not return when the interval is
  zero or negative, so it is a partial function: \<open>None\<close> is "never returns".
\<close>

partial_function (option) slotLoop ::
  "int \<Rightarrow> time \<Rightarrow> booking list \<Rightarrow> time \<Rightarrow> slot list \<Rightarrow> slot list option" where
  "slotLoop interval closeTime bookings currentSlot slots =
     (if currentSlot < closeTime
      then slotLoop interval closeTime bookings (currentSlot + interval * 60000)
             (if currentSlot + interval * 60000 \<le> closeTime
              then slots @ [\<lparr>sl_startTime = currentSlot,
                              sl_endTime = currentSlot + interval * 60000,
                              sl_available =
                                (\<not> list_ex (slotConflict currentSlot (currentSlot + interval * 60000))
                                      bookings)\<rparr>]
              else slots)
      else Some slots)"

declare slotLoop.simps [code]

subsection \<open>calculateCancellationRefund\<close>

record refundInfo =
  refundEligible :: bool
  refundPercentage :: rat
  refundAmount :: rat
  cancellationFee :: rat
  hoursUntilBooking :: rat

text \<open>
  The clock read by \<open>new Date()\<close> is the argument \<open>now\<close>. Amounts and hours are
  JavaScript numbers; they are modelled by rationals, that is, without the rounding of
  floating-point arithmetic.
\<close>

definition calculateCancellationRefund :: "time \<Rightarrow> booking \<Rightarrow> refundInfo" where
  "calculateCancellationRefund now b =
     (let hours = (of_int (b_startTime b - now) :: rat) / of_int msPerHour;
          percentage = (if hours \<ge> 24 then 100
                        else if hours \<ge> 12 then 75
                        else if hours \<ge> 6 then 50
                        else if hours \<ge> 2 then 25
                        else (0::rat));
          amount = (b_totalAmount b * percentage) / 100
      in \<lparr>refundEligible = (percentage > 0),
          refundPercentage = percentage,
          refundAmount = amount,
          cancellationFee = b_totalAmount b - amount,
          hoursUntilBooking = of_int (mathRound (hours * 10)) / 10\<rparr>)"

subsection \<open>canBeModified\<close>

definition canBeModified :: "time \<Rightarrow> booking \<Rightarrow> string option" where
  "canBeModified now b =
     (if b_status b \<noteq> Confirmed \<and> b_status b \<noteq> PendingConfirmation
      then Some ''Booking cannot be modified in current status''
      else if (of_int (b_startTime b - now) :: rat) / of_int msPerHour < 2
      then Some ''Booking cannot be modified less than 2 hours before start time''
      else None)"

section \<open>Courts (models/Court.js)\<close>

datatype courtStatus = Active | Inactive | Maintenance | TemporarilyClosed

record operatingHours =
  oh_dayOfWeek :: int
  oh_openTime :: string
  oh_closeTime :: string
  oh_isClosed :: bool

record pricingRule =
  pr_name :: string
  pr_baseRate :: rat
  pr_startDate :: "time option"
  pr_endDate :: "time option"
  pr_daysOfWeek :: "int list"
  pr_startTime :: "string option"
  pr_endTime :: "string option"
  pr_priority :: int
  pr_isActive :: bool

datatype discountKind =
  Membership | Loyalty | Group | EarlyBird | LastMinute | Bulk | Promotional

datatype discountType = Percentage | Fixed

record discountRule =
  dr_type :: discountKind
  dr_discountType :: discountType
  dr_value :: rat
  dr_minGroupSize :: "rat jsval"
  dr_membershipTier :: "string jsval"
  dr_isActive :: bool

record availabilityException =
  ex_date :: time
  ex_isAvailable :: bool
  ex_reason :: "string option"

record bookingSettings =
  minBookingDuration :: rat
  maxBookingDuration :: rat
  maxConcurrentBookingsPerUser :: int
  allowRecurringBookings :: bool
  requiresApproval :: bool

text \<open>
  A court document with its venue populated: \<open>c_venueRequiresApproval\<close> is
  \<open>venue.settings.requiresApproval\<close>.
\<close>

record court =
  c_id :: oid
  c_status :: courtStatus
  c_baseHourlyRate :: rat
  c_pricingRules :: "pricingRule list"
  c_discountRules :: "discountRule list"
  c_bookingSettings :: bookingSettings
  c_operatingHours :: "operatingHours list"
  c_availabilityExceptions :: "availabilityException list"
  c_venueRequiresApproval :: bool

subsection \<open>calculatePrice\<close>

text \<open>
  The \<open>options\<close> argument; the default \<open>{}\<close> has the three fields absent. A field
  that carries a value is taken to carry one of its intended type: a string, a number, a
  boolean.
\<close>

record priceOptions =
  o_membershipTier :: "string jsval"
  o_groupSize :: "rat jsval"
  o_isEarlyBird :: "bool jsval"

text \<open>
  The filter over the pricing rules. \<open>timeStr\<close> and the rule's window bounds are
  compared as strings, as the source does; an absent or empty bound is falsy and skips
  its test.
\<close>

definition ruleApplies :: "int \<Rightarrow> time \<Rightarrow> pricingRule \<Rightarrow> bool" where
  "ruleApplies tz startTime rule =
     (if \<not> pr_isActive rule then False
      else if (case pr_startDate rule of None \<Rightarrow> False | Some d \<Rightarrow> startTime < d) then False
      else if (case pr_endDate rule of None \<Rightarrow> False | Some d \<Rightarrow> startTime > d) then False
      else if pr_daysOfWeek rule \<noteq> [] \<and> getDay tz startTime \<notin> set (pr_daysOfWeek rule)
        then False
      else if (case pr_startTime rule of
                 None \<Rightarrow> False
               | Some st \<Rightarrow> st \<noteq> [] \<and> timeStr tz startTime < st) then False
      else if (case pr_endTime rule of
                 None \<Rightarrow> False
               | Some et \<Rightarrow> et \<noteq> [] \<and> timeStr tz startTime > et) then False
      else True)"

text \<open>
  \<open>.sort((a, b) => b.priority - a.priority)\<close>: a stable sort by descending priority.
\<close>

definition applicableRules :: "int \<Rightarrow> court \<Rightarrow> time \<Rightarrow> pricingRule list" where
  "applicableRules tz c startTime =
     sort_key (\<lambda>r. - pr_priority r) (filter (ruleApplies tz startTime) (c_pricingRules c))"

definition effectiveRate :: "int \<Rightarrow> court \<Rightarrow> time \<Rightarrow> rat" where
  "effectiveRate tz c startTime =
     (case applicableRules tz c startTime of
        [] \<Rightarrow> c_baseHourlyRate c
      | r # _ \<Rightarrow> pr_baseRate r)"

text \<open>
  The guard \<open>options.membershipTier || options.groupSize || options.isEarlyBird\<close> and the
  filter over the discount rules: \<open>===\<close> on the tiers, \<open>>=\<close> on the group sizes, the
  truthiness of the early-bird flag.
\<close>

definition optionsGiven :: "priceOptions \<Rightarrow> bool" where
  "optionsGiven opts =
     (truthyStr (o_membershipTier opts) \<or> truthyNum (o_groupSize opts) \<or>
      truthyBool (o_isEarlyBird opts))"

definition discountApplies :: "priceOptions \<Rightarrow> discountRule \<Rightarrow> bool" where
  "discountApplies opts d =
     (if \<not> dr_isActive d then False
      else if dr_type d = Membership \<and> o_membershipTier opts = dr_membershipTier d then True
      else if dr_type d = Group \<and> jsGe (o_groupSize opts) (dr_minGroupSize d) then True
      else if dr_type d = EarlyBird \<and> truthyBool (o_isEarlyBird opts) then True
      else False)"

definition applyDiscount :: "rat \<Rightarrow> discountRule \<Rightarrow> rat" where
  "applyDiscount totalPrice d =
     (if dr_discountType d = Percentage
      then totalPrice - (totalPrice * dr_value d / 100)
      else totalPrice - dr_value d)"

definition calculatePrice :: "int \<Rightarrow> court \<Rightarrow> time \<Rightarrow> time \<Rightarrow> priceOptions \<Rightarrow> rat" where
  "calculatePrice tz c startTime endTime opts =
     (let duration = (of_int (endTime - startTime) :: rat) / of_int msPerHour;
          totalPrice = effectiveRate tz c startTime * duration;
          discounted =
            (if optionsGiven opts
             then foldl applyDiscount totalPrice (filter (discountApplies opts) (c_discountRules c))
             else totalPrice)
      in max 0 discounted)"

subsection \<open>isAvailableForSlot\<close>

datatype availability = Available | Unavailable string

definition isAvailableForSlot :: "int \<Rightarrow> court \<Rightarrow> time \<Rightarrow> time \<Rightarrow> availability" where
  "isAvailableForSlot tz c startTime endTime =
     (if c_status c \<noteq> Active then Unavailable ''Court is not active''
      else
        (case find (\<lambda>oh. oh_dayOfWeek oh = getDay tz startTime) (c_operatingHours c) of
           None \<Rightarrow> Unavailable ''Court is closed on this day''
         | Some oh \<Rightarrow>
             if oh_isClosed oh then Unavailable ''Court is closed on this day''
             else if timeStr tz startTime < oh_openTime oh \<or>
                     timeStr tz startTime \<ge> oh_closeTime oh
               then Unavailable ''Outside operating hours''
             else
               (case find (\<lambda>exc. isoDate (ex_date exc) = isoDate startTime)
                       (c_availabilityExceptions c) of
                  None \<Rightarrow> Available
                | Some exc \<Rightarrow>
                    if \<not> ex_isAvailable exc
                    then Unavailable
                           (case ex_reason exc of
                              None \<Rightarrow> ''Court is unavailable on this date''
                            | Some r \<Rightarrow>
                                if r \<noteq> [] then r else ''Court is unavailable on this date'')
                    else Available)))"

subsection \<open>findAvailableSlots (a static of the booking model; it reads the court)\<close>

text \<open>
  \<open>courts\<close> is \<open>Court.findById\<close>. The result is \<open>None\<close> when the loop never returns,
  \<open>Inl\<close> the message of the thrown error, \<open>Inr\<close> the slots. When a bound does not
  parse, \<open>setHours\<close> makes an invalid date, the loop's test is false and no slot is made.
\<close>

definition dayBookings :: "int \<Rightarrow> store \<Rightarrow> oid \<Rightarrow> time \<Rightarrow> booking list" where
  "dayBookings tz db courtId date =
     sort_key b_startTime
       (filter (\<lambda>b. b_court b = courtId \<and> occupying (b_status b) \<and>
                    b_startTime b \<ge> setHours tz date 0 0 0 0 \<and>
                    b_endTime b \<le> setHours tz date 23 59 59 999) db)"

definition findAvailableSlots ::
  "int \<Rightarrow> (oid \<Rightarrow> court option) \<Rightarrow> store \<Rightarrow> oid \<Rightarrow> time \<Rightarrow> int \<Rightarrow> (string + slot list) option" where
  "findAvailableSlots tz courts db courtId date interval =
     (case courts courtId of
        None \<Rightarrow> Some (Inl ''Court not found'')
      | Some c \<Rightarrow>
          (let startDate = setHours tz date 0 0 0 0;
               bookings = dayBookings tz db courtId date
           in case find (\<lambda>oh. oh_dayOfWeek oh = getDay tz startDate) (c_operatingHours c) of
                None \<Rightarrow> Some (Inr [])
              | Some oh \<Rightarrow>
                  if oh_isClosed oh then Some (Inr [])
                  else
                    (case (parseHM (oh_openTime oh), parseHM (oh_closeTime oh)) of
                       (Some (openHour, openMinute), Some (closeHour, closeMinute)) \<Rightarrow>
                         map_option Inr
                           (slotLoop interval (setHours tz startDate closeHour closeMinute 0 0)
                              bookings (setHours tz startDate openHour openMinute 0 0) [])
                     | _ \<Rightarrow> Some (Inr []))))"

section \<open>The booking controller (controllers/bookingController.js)\<close>

text \<open>
  A handler takes the store and returns the response with the store it leaves. Saving a
  new document appends it under a fresh id, with the pre-save hook applied; saving a stored
  document replaces it. Failures of the database itself are not modelled.
\<close>

datatype response =
    ValidationErrors
  | NotFound string
  | BadRequest string
  | Forbidden string
  | Conflict "booking list"
  | InternalError
  | Created booking "booking list"
  | Ok booking

definition freshId :: "store \<Rightarrow> oid" where
  "freshId db = Suc (foldr max (map b_id db) 0)"

definition saveNew :: "store \<Rightarrow> booking \<Rightarrow> booking \<times> store" where
  "saveNew db b = (let b' = preSave None (b\<lparr>b_id := freshId db\<rparr>) in (b', db @ [b']))"

definition saveExisting :: "store \<Rightarrow> booking \<Rightarrow> booking \<times> store" where
  "saveExisting db b =
     (let b' = preSave (find (\<lambda>x. b_id x = b_id b) db) b
      in (b', map (\<lambda>x. if b_id x = b_id b then b' else x) db))"

subsection \<open>generateRecurringBookings\<close>

text \<open>\<open>interval || 1\<close> and \<open>occurrences || 52\<close>: absent and zero are falsy.\<close>

definition orDefault :: "int option \<Rightarrow> int \<Rightarrow> int" where
  "orDefault x d = (case x of None \<Rightarrow> d | Some n \<Rightarrow> if n = 0 then d else n)"

definition maxOccurrences :: "recurringPattern \<Rightarrow> int" where
  "maxOccurrences p = orDefault (rp_occurrences p) 52"

text \<open>
  The date advance at the head of the loop body: an \<open>if\<close>/\<open>else if\<close> chain over the
  frequency with no final \<open>else\<close>, so an absent frequency leaves the date where it is.
\<close>

definition nextOccurrence :: "int \<Rightarrow> recurringPattern \<Rightarrow> time \<Rightarrow> time" where
  "nextOccurrence tz p currentDate =
     (case rp_frequency p of
        Some Daily \<Rightarrow> addDays tz currentDate (orDefault (rp_interval p) 1)
      | Some Weekly \<Rightarrow> addDays tz currentDate (7 * orDefault (rp_interval p) 1)
      | Some Monthly \<Rightarrow> addMonths tz currentDate (orDefault (rp_interval p) 1)
      | None \<Rightarrow> currentDate)"

definition pastEndDate :: "recurringPattern \<Rightarrow> time \<Rightarrow> bool" where
  "pastEndDate p currentDate =
     (case rp_endDate p of None \<Rightarrow> False | Some d \<Rightarrow> currentDate > d)"

definition dayFiltered :: "int \<Rightarrow> recurringPattern \<Rightarrow> time \<Rightarrow> bool" where
  "dayFiltered tz p currentDate =
     (rp_daysOfWeek p \<noteq> [] \<and> getDay tz currentDate \<notin> set (rp_daysOfWeek p))"

text \<open>
  The occurrence made from the parent: its times replaced, the back-reference set, the
  pattern and the list of occurrences cleared.
\<close>

definition occurrence :: "booking \<Rightarrow> time \<Rightarrow> time \<Rightarrow> booking" where
  "occurrence parent newStartTime newEndTime =
     parent\<lparr>b_startTime := newStartTime,
            b_endTime := newEndTime,
            b_parentBooking := Some (b_id parent),
            b_recurringPattern := None,
            b_recurringBookings := []\<rparr>"

text \<open>
  The \<open>while (count < maxOccurrences)\<close> loop, with the list of occurrences made so far and
  the store. \<open>None\<close> is "never returns".
\<close>

partial_function (option) recurringLoop ::
  "int \<Rightarrow> recurringPattern \<Rightarrow> booking \<Rightarrow> oid \<Rightarrow> time \<Rightarrow> int \<Rightarrow> booking list \<Rightarrow> store
     \<Rightarrow> (booking list \<times> store) option" where
  "recurringLoop tz p parent courtId currentDate count recurringBookings db =
     (if count < maxOccurrences p
      then
        (if pastEndDate p (nextOccurrence tz p currentDate)
         then Some (recurringBookings, db)
         else if dayFiltered tz p (nextOccurrence tz p currentDate)
         then recurringLoop tz p parent courtId (nextOccurrence tz p currentDate) count
                recurringBookings db
         else if checkConflicts db courtId (nextOccurrence tz p currentDate)
                   (nextOccurrence tz p currentDate + (b_endTime parent - b_startTime parent))
                   None = []
         then recurringLoop tz p parent courtId (nextOccurrence tz p currentDate) (count + 1)
                (recurringBookings @
                   [fst (saveNew db
                      (occurrence parent (nextOccurrence tz p currentDate)
                         (nextOccurrence tz p currentDate
                            + (b_endTime parent - b_startTime parent))))])
                (snd (saveNew db
                   (occurrence parent (nextOccurrence tz p currentDate)
                      (nextOccurrence tz p currentDate
                         + (b_endTime parent - b_startTime parent)))))
         else recurringLoop tz p parent courtId (nextOccurrence tz p currentDate) count
                recurringBookings db)
      else Some (recurringBookings, db))"

declare recurringLoop.simps [code]

text \<open>
  \<open>generateRecurringBookings(parentBooking, court)\<close>. The pattern is a nested path of
  the document and so always an object: from a parent that stores no pattern the
  destructuring reads five absent fields (the days an empty array).
\<close>

definition emptyPattern :: recurringPattern where
  "emptyPattern =
     \<lparr>rp_frequency = None, rp_interval = None, rp_daysOfWeek = [], rp_endDate = None,
      rp_occurrences = None\<rparr>"

definition patternOf :: "booking \<Rightarrow> recurringPattern" where
  "patternOf b = (case b_recurringPattern b of None \<Rightarrow> emptyPattern | Some p \<Rightarrow> p)"

definition generateRecurringBookings ::
  "int \<Rightarrow> store \<Rightarrow> booking \<Rightarrow> court \<Rightarrow> (booking list \<times> store) option" where
  "generateRecurringBookings tz db parentBooking c =
     recurringLoop tz (patternOf parentBooking) parentBooking (c_id c)
       (b_startTime parentBooking) 0 [] db"

subsection \<open>createBooking\<close>

datatype bookingType = Single | Recurring

text \<open>
  The request: the authenticated user (id and membership tier) and the body. The handler
  takes \<open>court\<close>, \<open>startTime\<close>, \<open>endTime\<close>, \<open>bookingType\<close> and
  \<open>recurringPattern\<close> out of the body and spreads the rest (\<open>bookingData\<close>) last into
  the new document, so a field of the rest replaces the value that the handler computed for
  it. The \<open>rq_body\<close> fields are the fields of the rest that are fields of the booking
  record (\<open>rq_bodyTotalAmount\<close> is the total of a \<open>pricing\<close> object in the body); no
  validator looks at them. The body is taken to carry no \<open>_id\<close>.
  \<open>rq_otherFieldsValid\<close> stands for the validators of the remaining body fields (identifier
  and text formats). The booking counter of the court document, which the handler increments
  after a successful save of a single booking, is not modelled.
\<close>

record createRequest =
  rq_user :: oid
  rq_membershipTier :: "string jsval"
  rq_court :: oid
  rq_startTime :: time
  rq_endTime :: time
  rq_bookingType :: "bookingType option"
  rq_recurringPattern :: "recurringPattern option"
  rq_groupSize :: "int option"
  rq_isEarlyBird :: "bool jsval"
  rq_bodyUser :: "oid option"
  rq_bodyStatus :: "status option"
  rq_bodyDuration :: "int option"
  rq_bodyTotalAmount :: "rat option"
  rq_bodyParentBooking :: "oid option"
  rq_bodyRecurringBookings :: "oid list option"
  rq_bodyCheckIn :: "(time \<times> oid) option"
  rq_otherFieldsValid :: bool

text \<open>
  \<open>createBookingValidation\<close> (middleware/bookingValidation.js), whose result the handler
  reads first. The validators of the pattern's frequency and occurrence count run only for a
  recurring booking; a missing pattern then fails the frequency validator.
\<close>

definition patternValid :: "bool \<Rightarrow> recurringPattern option \<Rightarrow> bool" where
  "patternValid recurring rp =
     (case rp of
        None \<Rightarrow> \<not> recurring
      | Some p \<Rightarrow>
          (recurring \<longrightarrow> rp_frequency p \<noteq> None) \<and>
          (case rp_interval p of None \<Rightarrow> True | Some i \<Rightarrow> 1 \<le> i) \<and>
          list_all (\<lambda>d. 0 \<le> d \<and> d \<le> 6) (rp_daysOfWeek p) \<and>
          (recurring \<longrightarrow>
             (case rp_occurrences p of None \<Rightarrow> True | Some n \<Rightarrow> 1 \<le> n \<and> n \<le> 52)))"

definition createBookingValidation :: "time \<Rightarrow> createRequest \<Rightarrow> bool" where
  "createBookingValidation now rq =
     (rq_otherFieldsValid rq \<and>
      rq_startTime rq > now \<and>
      rq_endTime rq > rq_startTime rq \<and>
      patternValid (rq_bookingType rq = Some Recurring) (rq_recurringPattern rq) \<and>
      (case rq_groupSize rq of None \<Rightarrow> True | Some g \<Rightarrow> 1 \<le> g))"

definition userActiveBookings :: "store \<Rightarrow> oid \<Rightarrow> oid \<Rightarrow> int" where
  "userActiveBookings db user courtId =
     int (length (filter (\<lambda>b. b_user b = user \<and> b_court b = courtId \<and>
                              b_status b \<in> {Confirmed, PendingConfirmation}) db))"

text \<open>
  The document built by \<open>new Booking({...})\<close>, before it is saved: each field is the
  one of the rest of the body when the body carries it, and the handler's value otherwise. The
  handler's messages that quote a setting are shortened to fixed strings below.
\<close>

definition newBooking :: "int \<Rightarrow> court \<Rightarrow> createRequest \<Rightarrow> booking" where
  "newBooking tz c rq =
     (let basePrice =
            calculatePrice tz c (rq_startTime rq) (rq_endTime rq)
              \<lparr>o_membershipTier = rq_membershipTier rq,
               o_groupSize = Value (of_int (orDefault (rq_groupSize rq) 1)),
               o_isEarlyBird = rq_isEarlyBird rq\<rparr>;
          subtotal = basePrice - 0;
          tax = subtotal * (5 / 100);
          approval = (requiresApproval (c_bookingSettings c) \<or> c_venueRequiresApproval c)
      in \<lparr>b_id = 0,
          b_user = (case rq_bodyUser rq of None \<Rightarrow> rq_user rq | Some u \<Rightarrow> u),
          b_court = rq_court rq,
          b_startTime = rq_startTime rq,
          b_endTime = rq_endTime rq,
          b_duration = rq_bodyDuration rq,
          b_status =
            (case rq_bodyStatus rq of
               None \<Rightarrow> if approval then PendingConfirmation else Confirmed
             | Some st \<Rightarrow> st),
          b_totalAmount =
            (case rq_bodyTotalAmount rq of None \<Rightarrow> subtotal + tax + 0 | Some a \<Rightarrow> a),
          b_groupSize = (case rq_groupSize rq of None \<Rightarrow> 1 | Some g \<Rightarrow> g),
          b_recurringPattern = None,
          b_parentBooking = rq_bodyParentBooking rq,
          b_recurringBookings =
            (case rq_bodyRecurringBookings rq of None \<Rightarrow> [] | Some ids \<Rightarrow> ids),
          b_checkIn = rq_bodyCheckIn rq\<rparr>)"

text \<open>
  The recurring branch: the parent is saved, the occurrences are generated, and the parent
  is saved again with their ids.
\<close>

definition createRecurring ::
  "int \<Rightarrow> court \<Rightarrow> store \<Rightarrow> booking \<Rightarrow> recurringPattern \<Rightarrow> (response \<times> store) option" where
  "createRecurring tz c db b p =
     (if \<not> allowRecurringBookings (c_bookingSettings c)
      then Some (BadRequest ''Recurring bookings are not allowed for this court'', db)
      else if rp_frequency p = None \<or>
              (rp_endDate p = None \<and> orDefault (rp_occurrences p) 0 = 0)
      then Some (BadRequest ''Invalid recurring pattern. Must specify frequency and either endDate or occurrences'', db)
      else
        (case saveNew db (b\<lparr>b_recurringPattern := Some p\<rparr>) of
           (parent, db1) \<Rightarrow>
             (case generateRecurringBookings tz db1 parent c of
                None \<Rightarrow> None
              | Some (recurringBookings, db2) \<Rightarrow>
                  (case saveExisting db2
                          (parent\<lparr>b_recurringBookings := map b_id recurringBookings\<rparr>) of
                     (parent', db3) \<Rightarrow> Some (Created parent' recurringBookings, db3)))))"

definition createBooking ::
  "int \<Rightarrow> time \<Rightarrow> (oid \<Rightarrow> court option) \<Rightarrow> store \<Rightarrow> createRequest \<Rightarrow> (response \<times> store) option" where
  "createBooking tz now courts db rq =
     (if \<not> createBookingValidation now rq then Some (ValidationErrors, db)
      else
        (case courts (rq_court rq) of
           None \<Rightarrow> Some (NotFound ''Court not found'', db)
         | Some c \<Rightarrow>
             if c_status c \<noteq> Active
             then Some (BadRequest ''Court is not available for booking'', db)
             else if (of_int (rq_endTime rq - rq_startTime rq) :: rat) / of_int msPerMinute
                       < minBookingDuration (c_bookingSettings c)
             then Some (BadRequest ''Booking duration is below the minimum'', db)
             else if (of_int (rq_endTime rq - rq_startTime rq) :: rat) / of_int msPerMinute
                       > maxBookingDuration (c_bookingSettings c)
             then Some (BadRequest ''Booking duration is above the maximum'', db)
             else
               (case isAvailableForSlot tz c (rq_startTime rq) (rq_endTime rq) of
                  Unavailable reason \<Rightarrow>
                    Some (BadRequest
                            (if reason \<noteq> [] then reason
                             else ''Court is not available for selected time slot''), db)
                | Available \<Rightarrow>
                    if checkConflicts db (rq_court rq) (rq_startTime rq) (rq_endTime rq) None \<noteq> []
                    then Some (Conflict (checkConflicts db (rq_court rq) (rq_startTime rq)
                                           (rq_endTime rq) None), db)
                    else if userActiveBookings db (rq_user rq) (rq_court rq)
                              \<ge> maxConcurrentBookingsPerUser (c_bookingSettings c)
                    then Some (BadRequest ''Maximum concurrent bookings reached'', db)
                    else
                      (case (rq_bookingType rq, rq_recurringPattern rq) of
                         (Some Recurring, Some p) \<Rightarrow>
                           createRecurring tz c db (newBooking tz c rq) p
                       | _ \<Rightarrow>
                           (case saveNew db (newBooking tz c rq) of
                              (b, db1) \<Rightarrow> Some (Created b [], db1))))))"

subsection \<open>updateBooking\<close>

record updateRequest =
  ur_user :: oid
  ur_isAdmin :: bool
  ur_membershipTier :: "string jsval"
  ur_id :: oid
  ur_startTime :: "time option"
  ur_endTime :: "time option"
  ur_groupSize :: "int option"
  ur_otherFieldsValid :: bool

text \<open>
  \<open>updateBookingValidation\<close>: the end is compared with the start only when the request
  carries both.
\<close>

definition updateBookingValidation :: "time \<Rightarrow> updateRequest \<Rightarrow> bool" where
  "updateBookingValidation now rq =
     (ur_otherFieldsValid rq \<and>
      (case ur_startTime rq of None \<Rightarrow> True | Some s \<Rightarrow> s > now) \<and>
      (case (ur_startTime rq, ur_endTime rq) of
         (Some s, Some e) \<Rightarrow> e > s
       | _ \<Rightarrow> True) \<and>
      (case ur_groupSize rq of None \<Rightarrow> True | Some g \<Rightarrow> 1 \<le> g))"

text \<open>
  The block \<open>if (startTime || endTime)\<close>: the checks of the new times and the booking with
  the new times and price, or the response that ends the request. A booking whose court no
  longer exists makes the handler throw.
\<close>

definition reschedule ::
  "int \<Rightarrow> (oid \<Rightarrow> court option) \<Rightarrow> store \<Rightarrow> updateRequest \<Rightarrow> booking \<Rightarrow> time \<Rightarrow> time
     \<Rightarrow> response + booking" where
  "reschedule tz courts db rq booking newStartTime newEndTime =
     (case courts (b_court booking) of
        None \<Rightarrow> Inl InternalError
      | Some c \<Rightarrow>
          if checkConflicts db (c_id c) newStartTime newEndTime (Some (b_id booking)) \<noteq> []
          then Inl (Conflict (checkConflicts db (c_id c) newStartTime newEndTime
                                (Some (b_id booking))))
          else
            (case isAvailableForSlot tz c newStartTime newEndTime of
               Unavailable reason \<Rightarrow> Inl (BadRequest reason)
             | Available \<Rightarrow>
                 Inr (booking\<lparr>b_startTime := newStartTime,
                              b_endTime := newEndTime,
                              b_totalAmount :=
                                calculatePrice tz c newStartTime newEndTime
                                  \<lparr>o_membershipTier = ur_membershipTier rq,
                                   o_groupSize = Value (of_int (b_groupSize booking)),
                                   o_isEarlyBird = Undefined\<rparr>\<rparr>)))"

text \<open>
  The final \<open>booking.save()\<close>. \<open>validateUnmodified\<close> says whether the document library
  runs the validator of \<open>endTime\<close> when that path itself was not modified; when the
  validator runs and fails, the save throws and nothing is stored.
\<close>

definition saveUpdated :: "bool \<Rightarrow> store \<Rightarrow> booking \<Rightarrow> booking \<Rightarrow> response \<times> store" where
  "saveUpdated validateUnmodified db stored b =
     (if (validateUnmodified \<or> b_endTime b \<noteq> b_endTime stored) \<and> \<not> endTime_valid b
      then (InternalError, db)
      else (case saveExisting db b of (b', db') \<Rightarrow> (Ok b', db')))"

definition updateBooking ::
  "bool \<Rightarrow> int \<Rightarrow> time \<Rightarrow> (oid \<Rightarrow> court option) \<Rightarrow> store \<Rightarrow> updateRequest \<Rightarrow> response \<times> store" where
  "updateBooking validateUnmodified tz now courts db rq =
     (if \<not> updateBookingValidation now rq then (ValidationErrors, db)
      else
        (case find (\<lambda>b. b_id b = ur_id rq) db of
           None \<Rightarrow> (NotFound ''Booking not found'', db)
         | Some booking \<Rightarrow>
             if \<not> (b_user booking = ur_user rq) \<and> \<not> ur_isAdmin rq
             then (Forbidden ''Not authorized to update this booking'', db)
             else
               (case canBeModified now booking of
                  Some reason \<Rightarrow> (BadRequest reason, db)
                | None \<Rightarrow>
                    (case (if ur_startTime rq = None \<and> ur_endTime rq = None then Inr booking
                           else reschedule tz courts db rq booking
                                  (case ur_startTime rq of
                                     None \<Rightarrow> b_startTime booking | Some s \<Rightarrow> s)
                                  (case ur_endTime rq of
                                     None \<Rightarrow> b_endTime booking | Some e \<Rightarrow> e)) of
                       Inl r \<Rightarrow> (r, db)
                     | Inr b \<Rightarrow>
                         saveUpdated validateUnmodified db booking
                           (b\<lparr>b_groupSize :=
                                (case ur_groupSize rq of
                                   None \<Rightarrow> b_groupSize b | Some g \<Rightarrow> g)\<rparr>)))))"

subsection \<open>checkIn\<close>

datatype role = User | Owner | Manager | Admin

record checkInRequest =
  ci_user :: oid
  ci_role :: role
  ci_id :: oid

definition checkIn :: "time \<Rightarrow> store \<Rightarrow> checkInRequest \<Rightarrow> response \<times> store" where
  "checkIn now db rq =
     (case find (\<lambda>b. b_id b = ci_id rq) db of
        None \<Rightarrow> (NotFound ''Booking not found'', db)
      | Some booking \<Rightarrow>
          if \<not> (b_user booking = ci_user rq) \<and> \<not> (ci_role rq = Manager \<or> ci_role rq = Admin)
          then (Forbidden ''Not authorized to check-in'', db)
          else if b_status booking \<noteq> Confirmed
          then (BadRequest ''Only confirmed bookings can be checked in'', db)
          else if (of_int (b_startTime booking - now) :: rat) / of_int msPerMinute > 15
          then (BadRequest ''Check-in is only allowed 15 minutes before booking start time'', db)
          else
            (case saveExisting db
                    (booking\<lparr>b_checkIn := Some (now, ci_user rq), b_status := InProgress\<rparr>) of
               (b', db') \<Rightarrow> (Ok b', db')))"

section \<open>Definitions in the words of the specification\<close>

text \<open>The overlap predicate in the words of the specification.\<close>

definition overlaps :: "time \<Rightarrow> time \<Rightarrow> time \<Rightarrow> time \<Rightarrow> bool" where
  "overlaps s1 e1 s2 e2 = (s1 < e2 \<and> s2 < e1)"

text \<open>
  The refund tier in the words of the specification, on the time until the start in
  milliseconds: at least 24 hours gives 100, at least 12 gives 75, at least 6 gives 50, at
  least 2 gives 25, less gives 0.
\<close>

definition refundTier :: "int \<Rightarrow> rat" where
  "refundTier msUntilStart =
     (if msUntilStart \<ge> 24 * msPerHour then 100
      else if msUntilStart \<ge> 12 * msPerHour then 75
      else if msUntilStart \<ge> 6 * msPerHour then 50
      else if msUntilStart \<ge> 2 * msPerHour then 25
      else 0)"

text \<open>
  The difference of the two times in minutes, exactly (a rational), and rounded as
  \<open>Math.round\<close> does; a booking whose stored duration is the rounded difference.
\<close>

definition exactMinutes :: "booking \<Rightarrow> rat" where
  "exactMinutes b = of_int (b_endTime b - b_startTime b) / of_int msPerMinute"

definition roundedMinutes :: "booking \<Rightarrow> int" where
  "roundedMinutes b = mathRound (exactMinutes b)"

definition durationOk :: "booking \<Rightarrow> bool" where
  "durationOk b = (b_duration b = Some (roundedMinutes b))"

text \<open>
  When a check-in request succeeds, as the handler decides it: the booking exists, the
  requester is its user or staff, its status is confirmed, and the start is at most 15
  minutes ahead of the clock. The booking as a successful check-in leaves it.
\<close>

definition checkInAllowed :: "time \<Rightarrow> store \<Rightarrow> checkInRequest \<Rightarrow> bool" where
  "checkInAllowed now db rq =
     (case find (\<lambda>b. b_id b = ci_id rq) db of
        None \<Rightarrow> False
      | Some b \<Rightarrow>
          (b_user b = ci_user rq \<or> ci_role rq = Manager \<or> ci_role rq = Admin) \<and>
          b_status b = Confirmed \<and>
          b_startTime b - now \<le> 15 * msPerMinute)"

definition checkedIn :: "time \<Rightarrow> oid \<Rightarrow> booking \<Rightarrow> booking" where
  "checkedIn now user b = b\<lparr>b_checkIn := Some (now, user), b_status := InProgress\<rparr>"

definition isOk :: "response \<Rightarrow> bool" where
  "isOk r = (case r of Ok _ \<Rightarrow> True | _ \<Rightarrow> False)"



text \<open>
  Clock times. The clock time of a time value, in minutes since local midnight. The clock
  time that a text denotes, \<open>8:00\<close> and \<open>08:00\<close> alike: its hours and minutes read as
  numbers, an hour below 24 and a minute below 60. A clock time written as zero-padded
  \<open>HH:MM\<close>, and a text that is the zero-padded \<open>HH:MM\<close> of the clock time it denotes.
\<close>

definition clockMinutes :: "int \<Rightarrow> time \<Rightarrow> nat" where
  "clockMinutes tz t = getHours tz t * 60 + getMinutes tz t"

definition clockOf :: "string \<Rightarrow> nat option" where
  "clockOf s =
     (case parseHM s of
        None \<Rightarrow> None
      | Some (h, m) \<Rightarrow> if h < 24 \<and> m < 60 then Some (nat h * 60 + nat m) else None)"

definition hhmm :: "nat \<Rightarrow> nat \<Rightarrow> string" where
  "hhmm h m = pad2 h @ '':'' @ pad2 m"

definition padded :: "string \<Rightarrow> bool" where
  "padded s = (case clockOf s of None \<Rightarrow> False | Some n \<Rightarrow> s = hhmm (n div 60) (n mod 60))"

text \<open>
  The checks of the availability checker, one by one: the operating-hours entry of the start
  time's weekday (the first one, as \<open>find\<close> takes it), whether it is present and not
  closed, whether the start's clock time lies in \<open>[open, close)\<close>, and the exception of the
  start's calendar date that blocks it, if any. The availability they give together, first
  failure first.
\<close>

definition dayEntry :: "int \<Rightarrow> court \<Rightarrow> time \<Rightarrow> operatingHours option" where
  "dayEntry tz c s = find (\<lambda>oh. oh_dayOfWeek oh = getDay tz s) (c_operatingHours c)"

definition openThatDay :: "int \<Rightarrow> court \<Rightarrow> time \<Rightarrow> bool" where
  "openThatDay tz c s = (case dayEntry tz c s of None \<Rightarrow> False | Some oh \<Rightarrow> \<not> oh_isClosed oh)"

definition withinHours :: "int \<Rightarrow> court \<Rightarrow> time \<Rightarrow> bool" where
  "withinHours tz c s =
     (case dayEntry tz c s of
        None \<Rightarrow> False
      | Some oh \<Rightarrow>
          (case (clockOf (oh_openTime oh), clockOf (oh_closeTime oh)) of
             (Some opens, Some closes) \<Rightarrow>
               opens \<le> clockMinutes tz s \<and> clockMinutes tz s < closes
           | _ \<Rightarrow> False))"

definition blockingException :: "court \<Rightarrow> time \<Rightarrow> availabilityException option" where
  "blockingException c s =
     (case find (\<lambda>exc. isoDate (ex_date exc) = isoDate s) (c_availabilityExceptions c) of
        None \<Rightarrow> None
      | Some exc \<Rightarrow> if ex_isAvailable exc then None else Some exc)"

definition exceptionReason :: "availabilityException \<Rightarrow> string" where
  "exceptionReason exc =
     (case ex_reason exc of
        None \<Rightarrow> ''Court is unavailable on this date''
      | Some r \<Rightarrow> if r \<noteq> [] then r else ''Court is unavailable on this date'')"

definition checkedAvailability :: "int \<Rightarrow> court \<Rightarrow> time \<Rightarrow> availability" where
  "checkedAvailability tz c s =
     (if c_status c \<noteq> Active then Unavailable ''Court is not active''
      else if \<not> openThatDay tz c s then Unavailable ''Court is closed on this day''
      else if \<not> withinHours tz c s then Unavailable ''Outside operating hours''
      else (case blockingException c s of
              Some exc \<Rightarrow> Unavailable (exceptionReason exc)
            | None \<Rightarrow> Available))"




text \<open>
  A court whose pricing rules write the bounds of their time-of-day windows, where they have
  them, as zero-padded \<open>HH:MM\<close>; and one whose operating hours are written so.
\<close>

definition boundPadded :: "string option \<Rightarrow> bool" where
  "boundPadded bound = (case bound of None \<Rightarrow> True | Some t \<Rightarrow> t = [] \<or> padded t)"

definition windowsPadded :: "court \<Rightarrow> bool" where
  "windowsPadded c =
     list_all (\<lambda>r. boundPadded (pr_startTime r) \<and> boundPadded (pr_endTime r))
       (c_pricingRules c)"

definition hoursPadded :: "court \<Rightarrow> bool" where
  "hoursPadded c =
     list_all (\<lambda>oh. padded (oh_openTime oh) \<and> padded (oh_closeTime oh)) (c_operatingHours c)"






text \<open>
  The slot grid in the words of the specification: consecutive slots of the given width (in
  milliseconds) from the open time, as many as fit whole before the close time (a trailing
  partial slot is dropped), each unavailable exactly when it overlaps one of the bookings.
\<close>

definition gridSlot :: "time \<Rightarrow> int \<Rightarrow> booking list \<Rightarrow> nat \<Rightarrow> slot" where
  "gridSlot openT width bookings k =
     \<lparr>sl_startTime = openT + int k * width,
      sl_endTime = openT + (int k + 1) * width,
      sl_available =
        (\<not> list_ex (\<lambda>b. overlaps (openT + int k * width) (openT + (int k + 1) * width)
                          (b_startTime b) (b_endTime b)) bookings)\<rparr>"

definition slotGrid :: "time \<Rightarrow> time \<Rightarrow> int \<Rightarrow> booking list \<Rightarrow> slot list" where
  "slotGrid openT closeT width bookings =
     map (gridSlot openT width bookings) [0..<nat ((closeT - openT) div width)]"

section \<open>Concrete data\<close>

text \<open>
  Monday 15 January 2024, 00:00 UTC, and a clock time on that day. The concrete examples
  run in the zone with offset 0.
\<close>

definition monday :: time where
  "monday = 1705276800000"

definition clock :: "int \<Rightarrow> int \<Rightarrow> time" where
  "clock h m = monday + h * msPerHour + m * msPerMinute"

text \<open>
  The court of the specification's scenarios: base rate 1000 an hour, a peak rule (rate 1500,
  window 17:00 to 21:00, priority 10, active), open every day from 08:00 to 20:00, bookings
  of 60 to 180 minutes.
\<close>

definition peakRule :: pricingRule where
  "peakRule =
     \<lparr>pr_name = ''Peak Hours'', pr_baseRate = 1500, pr_startDate = None, pr_endDate = None,
      pr_daysOfWeek = [], pr_startTime = Some ''17:00'', pr_endTime = Some ''21:00'',
      pr_priority = 10, pr_isActive = True\<rparr>"

definition openDay :: "int \<Rightarrow> operatingHours" where
  "openDay d =
     \<lparr>oh_dayOfWeek = d, oh_openTime = ''08:00'', oh_closeTime = ''20:00'', oh_isClosed = False\<rparr>"

definition sampleCourt :: court where
  "sampleCourt =
     \<lparr>c_id = 1, c_status = Active, c_baseHourlyRate = 1000,
      c_pricingRules = [peakRule], c_discountRules = [],
      c_bookingSettings =
        \<lparr>minBookingDuration = 60, maxBookingDuration = 180,
         maxConcurrentBookingsPerUser = 3, allowRecurringBookings = True,
         requiresApproval = False\<rparr>,
      c_operatingHours = map openDay [0, 1, 2, 3, 4, 5, 6],
      c_availabilityExceptions = [],
      c_venueRequiresApproval = False\<rparr>"

definition sampleCourts :: "oid \<Rightarrow> court option" where
  "sampleCourts i = (if i = 1 then Some sampleCourt else None)"

definition sampleRequest :: "time \<Rightarrow> time \<Rightarrow> createRequest" where
  "sampleRequest s e =
     \<lparr>rq_user = 7, rq_membershipTier = Undefined, rq_court = 1, rq_startTime = s,
      rq_endTime = e, rq_bookingType = None, rq_recurringPattern = None, rq_groupSize = None,
      rq_isEarlyBird = Undefined, rq_bodyUser = None, rq_bodyStatus = None,
      rq_bodyDuration = None, rq_bodyTotalAmount = None, rq_bodyParentBooking = None,
      rq_bodyRecurringBookings = None, rq_bodyCheckIn = None, rq_otherFieldsValid = True\<rparr>"

definition noOptions :: priceOptions where
  "noOptions =
     \<lparr>o_membershipTier = Undefined, o_groupSize = Undefined, o_isEarlyBird = Undefined\<rparr>"

text \<open>
  The booking that a request by user 7 for court 1 from 10:00:00 to 11:00:30 on that Monday
  creates in an empty store.
\<close>

definition halfMinuteBooking :: booking where
  "halfMinuteBooking =
     \<lparr>b_id = 1, b_user = 7, b_court = 1, b_startTime = clock 10 0,
      b_endTime = clock 11 0 + 30000, b_duration = Some 61,
      b_status = Confirmed, b_totalAmount = 4235 / 4, b_groupSize = 1,
      b_recurringPattern = None, b_parentBooking = None,
      b_recurringBookings = [], b_checkIn = None\<rparr>"




text \<open>
  The same court with a 10 percent group discount whose minimum group size is \<open>null\<close>,
  and the court of the scenarios with the start of the peak window written \<open>9:00\<close>.
\<close>

definition nullGroupDiscount :: discountRule where
  "nullGroupDiscount =
     \<lparr>dr_type = Group, dr_discountType = Percentage, dr_value = 10,
      dr_minGroupSize = Null, dr_membershipTier = Undefined, dr_isActive = True\<rparr>"

definition groupCourt :: court where
  "groupCourt = sampleCourt\<lparr>c_discountRules := [nullGroupDiscount]\<rparr>"

definition singleOptions :: priceOptions where
  "singleOptions =
     \<lparr>o_membershipTier = Undefined, o_groupSize = Value 1, o_isEarlyBird = Undefined\<rparr>"

definition unpaddedPeakCourt :: court where
  "unpaddedPeakCourt =
     sampleCourt\<lparr>c_pricingRules := [peakRule\<lparr>pr_startTime := Some ''9:00''\<rparr>]\<rparr>"

text \<open>A stored booking with the given id, court, times and status, for concrete stores.\<close>

definition sampleBooking :: "oid \<Rightarrow> oid \<Rightarrow> time \<Rightarrow> time \<Rightarrow> status \<Rightarrow> booking" where
  "sampleBooking i c s e st =
     \<lparr>b_id = i, b_user = 7, b_court = c, b_startTime = s, b_endTime = e,
      b_duration = None, b_status = st, b_totalAmount = 2100, b_groupSize = 1,
      b_recurringPattern = None, b_parentBooking = None, b_recurringBookings = [],
      b_checkIn = None\<rparr>"

text \<open>The store of the slot scenario: one confirmed booking of court 1 from 10:00 to 11:00.\<close>

definition oneBooking :: store where
  "oneBooking = [sampleBooking 1 1 (clock 10 0) (clock 11 0) Confirmed]"

text \<open>
  The court of the scenarios with its opening time written \<open>8:00\<close>, without the leading
  zero, which the pattern of the schema admits.
\<close>

definition earlyDay :: "int \<Rightarrow> operatingHours" where
  "earlyDay d =
     \<lparr>oh_dayOfWeek = d, oh_openTime = ''8:00'', oh_closeTime = ''20:00'', oh_isClosed = False\<rparr>"

definition earlyCourt :: court where
  "earlyCourt = sampleCourt\<lparr>c_operatingHours := map earlyDay [0, 1, 2, 3, 4, 5, 6]\<rparr>"

definition earlyCourts :: "oid \<Rightarrow> court option" where
  "earlyCourts i = (if i = 1 then Some earlyCourt else None)"

text \<open>
  The court of the scenarios open until 23:00, and the booking that a request by user 7 for
  this court from 22:00 on that Monday to 00:30 on the Tuesday creates in an empty store.
\<close>

definition lateDay :: "int \<Rightarrow> operatingHours" where
  "lateDay d =
     \<lparr>oh_dayOfWeek = d, oh_openTime = ''08:00'', oh_closeTime = ''23:00'', oh_isClosed = False\<rparr>"

definition lateCourt :: court where
  "lateCourt = sampleCourt\<lparr>c_operatingHours := map lateDay [0, 1, 2, 3, 4, 5, 6]\<rparr>"

definition lateCourts :: "oid \<Rightarrow> court option" where
  "lateCourts i = (if i = 1 then Some lateCourt else None)"

definition overnightBooking :: booking where
  "overnightBooking =
     \<lparr>b_id = 1, b_user = 7, b_court = 1, b_startTime = clock 22 0,
      b_endTime = clock 24 30, b_duration = Some 150,
      b_status = Confirmed, b_totalAmount = 2625, b_groupSize = 1,
      b_recurringPattern = None, b_parentBooking = None,
      b_recurringBookings = [], b_checkIn = None\<rparr>"



text \<open>
  A weekly pattern restricted to Tuesdays that asks for one occurrence and has no end date,
  and a valid request that carries it for a booking on that Monday.
\<close>

definition weeklyTuesday :: recurringPattern where
  "weeklyTuesday =
     \<lparr>rp_frequency = Some Weekly, rp_interval = None, rp_daysOfWeek = [2], rp_endDate = None,
      rp_occurrences = Some 1\<rparr>"

definition stuckRequest :: createRequest where
  "stuckRequest =
     (sampleRequest (clock 10 0) (clock 11 0))
       \<lparr>rq_bookingType := Some Recurring, rq_recurringPattern := Some weeklyTuesday\<rparr>"

section \<open>Evaluation of the time functions\<close>

lemmas time_defs = msPerDay_def msPerHour_def msPerMinute_def localDay_def timeInDay_def
  getDay_def getHours_def getMinutes_def setHours_def isoDate_def

lemma digit_simps:
  "digit 0 = CHR ''0''" "digit 1 = CHR ''1''" "digit 2 = CHR ''2''" "digit 3 = CHR ''3''"
  "digit 4 = CHR ''4''" "digit 5 = CHR ''5''" "digit 6 = CHR ''6''" "digit 7 = CHR ''7''"
  "digit 8 = CHR ''8''" "digit 9 = CHR ''9''" "digit (Suc 0) = CHR ''1''"
  unfolding digit_def by code_simp+

lemmas timeStr_defs = timeStr_def pad2_def digit_simps clock_def monday_def time_defs

section \<open>Conflict detection\<close>

lemma conflictQuery_overlaps:
  assumes "s < e" and "b_startTime b < b_endTime b"
  shows "conflictQuery s e b = overlaps s e (b_startTime b) (b_endTime b)"
  using assms unfolding conflictQuery_def overlaps_def by auto


lemma excluded_case:
  "(case excl of None \<Rightarrow> True | Some x \<Rightarrow> b_id b \<noteq> x) = (Some (b_id b) \<noteq> excl)"
  by (cases excl) auto

text \<open>
  C1. For a requested interval \<open>[s, e)\<close> with \<open>s < e\<close> and stored bookings that satisfy
  the schema's validator (end after start), \<open>checkConflicts\<close> returns exactly the stored
  bookings of the court, other than the excluded one, whose status is pending-confirmation,
  confirmed or in-progress and whose interval overlaps the requested one
  (\<open>s < e2 \<and> s2 < e\<close>); a booking that only touches the requested interval at a boundary
  is never returned.
\<close>

theorem checkConflicts_exact:
  assumes "s < e" and "\<forall>b \<in> set db. endTime_valid b"
  shows "checkConflicts db courtId s e excl =
           filter (\<lambda>b. b_court b = courtId \<and> Some (b_id b) \<noteq> excl \<and>
                       occupying (b_status b) \<and>
                       overlaps s e (b_startTime b) (b_endTime b)) db
         \<and> (\<forall>b \<in> set (checkConflicts db courtId s e excl).
               b_endTime b \<noteq> s \<and> b_startTime b \<noteq> e)"
proof
  have eq: "conflictQuery s e b = overlaps s e (b_startTime b) (b_endTime b)"
    if "b \<in> set db" for b
    using that assms conflictQuery_overlaps [of s e b] by (simp add: endTime_valid_def)
  show "checkConflicts db courtId s e excl =
          filter (\<lambda>b. b_court b = courtId \<and> Some (b_id b) \<noteq> excl \<and>
                      occupying (b_status b) \<and>
                      overlaps s e (b_startTime b) (b_endTime b)) db"
    unfolding checkConflicts_def excluded_case
    by (rule filter_cong [OF refl]) (auto simp: eq)
  show "\<forall>b \<in> set (checkConflicts db courtId s e excl).
          b_endTime b \<noteq> s \<and> b_startTime b \<noteq> e"
  proof
    fix b assume b: "b \<in> set (checkConflicts db courtId s e excl)"
    then have "b \<in> set db" and "conflictQuery s e b"
      by (auto simp: checkConflicts_def)
    then have "overlaps s e (b_startTime b) (b_endTime b)" using eq by simp
    then show "b_endTime b \<noteq> s \<and> b_startTime b \<noteq> e"
      by (auto simp: overlaps_def)
  qed
qed

theorem checkConflicts_exact_witness:
  "checkConflicts
     [sampleBooking 1 1 600 720 Confirmed, sampleBooking 2 1 720 780 Confirmed,
      sampleBooking 3 1 660 780 Cancelled, sampleBooking 4 2 660 780 Confirmed,
      sampleBooking 5 1 500 600 InProgress, sampleBooking 6 1 700 710 PendingConfirmation]
     1 660 720 (Some 6)
   = [sampleBooking 1 1 600 720 Confirmed]"
  using checkConflicts_exact
    [of 660 720
        "[sampleBooking 1 1 600 720 Confirmed, sampleBooking 2 1 720 780 Confirmed,
          sampleBooking 3 1 660 780 Cancelled, sampleBooking 4 2 660 780 Confirmed,
          sampleBooking 5 1 500 600 InProgress, sampleBooking 6 1 700 710 PendingConfirmation]"
        1 "Some 6"]
  by (simp add: sampleBooking_def endTime_valid_def occupying_def overlaps_def)

section \<open>Cancellation refund\<close>

lemma hours_ge:
  "((of_int x :: rat) / of_int msPerHour \<ge> of_int k) = (x \<ge> k * msPerHour)"
proof -
  have "((of_int x :: rat) / of_int msPerHour \<ge> of_int k)
          = (of_int k * of_int msPerHour \<le> (of_int x :: rat))"
    by (simp add: msPerHour_def pos_le_divide_eq)
  also have "\<dots> = (k * msPerHour \<le> x)"
    by (metis of_int_le_iff of_int_mult)
  finally show ?thesis .
qed

lemma refundPercentage_tier:
  "refundPercentage (calculateCancellationRefund now b) = refundTier (b_startTime b - now)"
  using hours_ge [of 24 "b_startTime b - now"] hours_ge [of 12 "b_startTime b - now"]
    hours_ge [of 6 "b_startTime b - now"] hours_ge [of 2 "b_startTime b - now"]
  by (simp add: calculateCancellationRefund_def refundTier_def Let_def)

text \<open>
  C3. The refund is a function of the clock, the start time and the total amount alone: two
  bookings that agree on start time and total get the same result. The percentage is the
  tier of the time until the start (100 from 24 hours, 75 from 12, 50 from 6, 25 from 2, else
  0), the refund amount is total times percentage over 100, and the fee is total minus the
  refund. For a total of 2100, a start 48 hours ahead refunds 2100, 18 hours ahead 1575, and
  1 hour ahead 0. (Amounts are rationals: floating-point rounding is not modelled.)
\<close>

theorem calculateCancellationRefund_tiers:
  "(\<forall>b'. b_startTime b' = b_startTime b \<and> b_totalAmount b' = b_totalAmount b \<longrightarrow>
         calculateCancellationRefund now b' = calculateCancellationRefund now b)
   \<and> refundPercentage (calculateCancellationRefund now b) = refundTier (b_startTime b - now)
   \<and> refundAmount (calculateCancellationRefund now b)
        = b_totalAmount b * refundPercentage (calculateCancellationRefund now b) / 100
   \<and> cancellationFee (calculateCancellationRefund now b)
        = b_totalAmount b - refundAmount (calculateCancellationRefund now b)
   \<and> refundAmount (calculateCancellationRefund now
        (b\<lparr>b_startTime := now + 48 * msPerHour, b_totalAmount := 2100\<rparr>)) = 2100
   \<and> refundAmount (calculateCancellationRefund now
        (b\<lparr>b_startTime := now + 18 * msPerHour, b_totalAmount := 2100\<rparr>)) = 1575
   \<and> refundAmount (calculateCancellationRefund now
        (b\<lparr>b_startTime := now + 1 * msPerHour, b_totalAmount := 2100\<rparr>)) = 0"
proof (intro conjI)
  show "\<forall>b'. b_startTime b' = b_startTime b \<and> b_totalAmount b' = b_totalAmount b \<longrightarrow>
          calculateCancellationRefund now b' = calculateCancellationRefund now b"
    by (simp add: calculateCancellationRefund_def)
  show "refundPercentage (calculateCancellationRefund now b) = refundTier (b_startTime b - now)"
    by (rule refundPercentage_tier)
  show "refundAmount (calculateCancellationRefund now b)
          = b_totalAmount b * refundPercentage (calculateCancellationRefund now b) / 100"
    by (simp add: calculateCancellationRefund_def Let_def)
  show "cancellationFee (calculateCancellationRefund now b)
          = b_totalAmount b - refundAmount (calculateCancellationRefund now b)"
    by (simp add: calculateCancellationRefund_def Let_def)
  show "refundAmount (calculateCancellationRefund now
          (b\<lparr>b_startTime := now + 48 * msPerHour, b_totalAmount := 2100\<rparr>)) = 2100"
    by (simp add: calculateCancellationRefund_def Let_def msPerHour_def)
  show "refundAmount (calculateCancellationRefund now
          (b\<lparr>b_startTime := now + 18 * msPerHour, b_totalAmount := 2100\<rparr>)) = 1575"
    by (simp add: calculateCancellationRefund_def Let_def msPerHour_def)
  show "refundAmount (calculateCancellationRefund now
          (b\<lparr>b_startTime := now + 1 * msPerHour, b_totalAmount := 2100\<rparr>)) = 0"
    by (simp add: calculateCancellationRefund_def Let_def msPerHour_def)
qed

theorem calculateCancellationRefund_tiers_witness:
  "calculateCancellationRefund 1000
       (sampleBooking 1 1 (1000 + 18 * 3600000) (1000 + 19 * 3600000) Confirmed)
     = calculateCancellationRefund 1000 (sampleBooking 2 5 (1000 + 18 * 3600000) 0 Cancelled)
   \<and> refundPercentage
       (calculateCancellationRefund 1000
          (sampleBooking 2 5 (1000 + 18 * 3600000) 0 Cancelled)) = 75
   \<and> refundAmount
       (calculateCancellationRefund 1000
          (sampleBooking 2 5 (1000 + 18 * 3600000) 0 Cancelled)) = 1575
   \<and> cancellationFee
       (calculateCancellationRefund 1000
          (sampleBooking 2 5 (1000 + 18 * 3600000) 0 Cancelled)) = 525"
proof -
  let ?b = "sampleBooking 2 5 (1000 + 18 * 3600000) 0 Cancelled"
  let ?b' = "sampleBooking 1 1 (1000 + 18 * 3600000) (1000 + 19 * 3600000) Confirmed"
  note t = calculateCancellationRefund_tiers [of ?b 1000]
  note pure = t [THEN conjunct1]
  note pct = t [THEN conjunct2, THEN conjunct1]
  note amt = t [THEN conjunct2, THEN conjunct2, THEN conjunct1]
  note fee = t [THEN conjunct2, THEN conjunct2, THEN conjunct2, THEN conjunct1]
  have same: "b_startTime ?b' = b_startTime ?b \<and> b_totalAmount ?b' = b_totalAmount ?b"
    by (simp add: sampleBooking_def)
  have 1: "calculateCancellationRefund 1000 ?b' = calculateCancellationRefund 1000 ?b"
    using pure same by blast
  have tier: "refundTier (b_startTime ?b - 1000) = 75"
    by (simp add: sampleBooking_def refundTier_def msPerHour_def)
  have 2: "refundPercentage (calculateCancellationRefund 1000 ?b) = 75"
    using pct tier by simp
  have total: "b_totalAmount ?b = 2100"
    by (simp add: sampleBooking_def)
  have 3: "refundAmount (calculateCancellationRefund 1000 ?b) = 1575"
    unfolding amt 2 total by simp
  have 4: "cancellationFee (calculateCancellationRefund 1000 ?b) = 525"
    unfolding fee 3 total by simp
  show ?thesis using 1 2 3 4 by blast
qed

section \<open>The loop of the recurring expansion\<close>

text \<open>
  An invariant rule for the loop: a property of the loop's variables that holds at entry and
  is kept by both ways through the body (the date skipped, or an occurrence saved) holds when
  the loop returns, and then the loop's exit condition holds.
\<close>

lemma recurringLoop_invariant:
  assumes run: "recurringLoop tz p parent cid cur count acc db = Some res"
    and init: "I cur count acc db"
    and skip: "\<And>cur count acc db.
        I cur count acc db \<Longrightarrow> count < maxOccurrences p \<Longrightarrow>
        \<not> pastEndDate p (nextOccurrence tz p cur) \<Longrightarrow>
        dayFiltered tz p (nextOccurrence tz p cur) \<or>
          checkConflicts db cid (nextOccurrence tz p cur)
            (nextOccurrence tz p cur + (b_endTime parent - b_startTime parent)) None \<noteq> [] \<Longrightarrow>
        I (nextOccurrence tz p cur) count acc db"
    and save: "\<And>cur count acc db.
        I cur count acc db \<Longrightarrow> count < maxOccurrences p \<Longrightarrow>
        \<not> pastEndDate p (nextOccurrence tz p cur) \<Longrightarrow>
        \<not> dayFiltered tz p (nextOccurrence tz p cur) \<Longrightarrow>
        checkConflicts db cid (nextOccurrence tz p cur)
          (nextOccurrence tz p cur + (b_endTime parent - b_startTime parent)) None = [] \<Longrightarrow>
        I (nextOccurrence tz p cur) (count + 1)
          (acc @ [fst (saveNew db (occurrence parent (nextOccurrence tz p cur)
             (nextOccurrence tz p cur + (b_endTime parent - b_startTime parent))))])
          (snd (saveNew db (occurrence parent (nextOccurrence tz p cur)
             (nextOccurrence tz p cur + (b_endTime parent - b_startTime parent)))))"
  shows "\<exists>cur' count'. I cur' count' (fst res) (snd res) \<and>
           (\<not> count' < maxOccurrences p \<or> pastEndDate p (nextOccurrence tz p cur'))"
proof -
  have "tz' = tz \<and> p' = p \<and> parent' = parent \<and> cid' = cid \<longrightarrow> I cur count acc db \<longrightarrow>
        (\<exists>cur' count'. I cur' count' (fst res) (snd res) \<and>
           (\<not> count' < maxOccurrences p \<or> pastEndDate p (nextOccurrence tz p cur')))"
    if "recurringLoop tz' p' parent' cid' cur count acc db = Some res" for tz' p' parent' cid'
    apply (rule recurringLoop.raw_induct
      [where P = "\<lambda>tz' p' parent' cid' cur count acc db res.
         tz' = tz \<and> p' = p \<and> parent' = parent \<and> cid' = cid \<longrightarrow> I cur count acc db \<longrightarrow>
         (\<exists>cur' count'. I cur' count' (fst res) (snd res) \<and>
            (\<not> count' < maxOccurrences p \<or> pastEndDate p (nextOccurrence tz p cur')))",
       OF _ that])
    subgoal premises prems for loop tz' p' parent' cid' cur count acc db res
      using prems(2) prems(1) skip save
      by (auto split: if_splits; blast)
    done
  then show ?thesis using run init by blast
qed

section \<open>The stored duration\<close>

lemma preSave_durationOk:
  "timesModified old b \<or> durationOk b \<Longrightarrow> durationOk (preSave old b)"
  by (auto simp: preSave_def durationOk_def roundedMinutes_def exactMinutes_def)

lemma saveNew_durationOk:
  "durationOk (fst (saveNew db b))"
  "list_all durationOk db \<Longrightarrow> list_all durationOk (snd (saveNew db b))"
  by (simp_all add: saveNew_def Let_def preSave_durationOk timesModified_def)

lemma saveExisting_durationOk:
  assumes "timesModified (find (\<lambda>x. b_id x = b_id b) db) b \<or> durationOk b"
  shows "durationOk (fst (saveExisting db b))"
    and "list_all durationOk db \<Longrightarrow> list_all durationOk (snd (saveExisting db b))"
  using assms by (auto simp: saveExisting_def Let_def preSave_durationOk list_all_iff)

lemma recurringLoop_durationOk:
  assumes "recurringLoop tz p parent cid cur count acc db = Some res"
    and "list_all durationOk db" and "list_all durationOk acc"
  shows "list_all durationOk (fst res) \<and> list_all durationOk (snd res)"
  using recurringLoop_invariant
    [where I = "\<lambda>cur count acc db. list_all durationOk acc \<and> list_all durationOk db",
     OF assms(1)]
    assms(2,3) saveNew_durationOk
  by auto

lemma find_id: "find (\<lambda>b. b_id b = i) db = Some x \<Longrightarrow> b_id x = i \<and> x \<in> set db"
  by (induction db) (auto split: if_splits)

lemma checkIn_durationOk:
  assumes "list_all durationOk db"
  shows "list_all durationOk (snd (checkIn now db rq))"
proof (cases "find (\<lambda>b. b_id b = ci_id rq) db")
  case None
  then show ?thesis using assms by (simp add: checkIn_def)
next
  case (Some b)
  then have "b \<in> set db" using find_id by blast
  then have ok: "durationOk b" using assms by (simp add: list_all_iff)
  have "durationOk (b\<lparr>b_checkIn := Some (now, ci_user rq), b_status := InProgress\<rparr>)"
    using ok by (simp add: durationOk_def roundedMinutes_def exactMinutes_def)
  then have "list_all durationOk
      (snd (saveExisting db (b\<lparr>b_checkIn := Some (now, ci_user rq), b_status := InProgress\<rparr>)))"
    using saveExisting_durationOk(2) assms by blast
  then show ?thesis using assms Some by (simp add: checkIn_def case_prod_beta)
qed

lemma saveUpdated_durationOk:
  assumes "list_all durationOk db" and "find (\<lambda>x. b_id x = b_id b) db = Some stored"
    and "durationOk stored" and "b_duration b = b_duration stored"
  shows "list_all durationOk (snd (saveUpdated v db stored b))"
proof -
  have "timesModified (find (\<lambda>x. b_id x = b_id b) db) b \<or> durationOk b"
    using assms(2,3,4)
    by (auto simp: timesModified_def durationOk_def roundedMinutes_def exactMinutes_def)
  then have "list_all durationOk (snd (saveExisting db b))"
    using saveExisting_durationOk(2) assms(1) by blast
  then show ?thesis using assms(1) by (simp add: saveUpdated_def case_prod_beta)
qed

lemma reschedule_keeps:
  assumes "reschedule tz courts db rq booking s e = Inr b"
  shows "b_id b = b_id booking \<and> b_duration b = b_duration booking"
  using assms
  by (auto simp: reschedule_def split: option.splits availability.splits if_splits)

lemma updateBooking_durationOk:
  assumes "list_all durationOk db"
  shows "list_all durationOk (snd (updateBooking v tz now courts db rq))"
proof (cases "find (\<lambda>b. b_id b = ur_id rq) db")
  case None
  then show ?thesis using assms by (simp add: updateBooking_def)
next
  case (Some booking)
  then have idb: "b_id booking = ur_id rq" and "booking \<in> set db" using find_id by blast+
  then have okb: "durationOk booking" using assms by (simp add: list_all_iff)
  have f: "find (\<lambda>x. b_id x = b_id booking) db = Some booking" using Some idb by simp
  have sv: "list_all durationOk (snd (saveUpdated v db booking (b\<lparr>b_groupSize := g\<rparr>)))"
    if "b_id b = b_id booking \<and> b_duration b = b_duration booking" for b g
    using saveUpdated_durationOk [OF assms _ okb, of "b\<lparr>b_groupSize := g\<rparr>" v] f that by simp
  have 1: "list_all durationOk (snd (saveUpdated v db booking (booking\<lparr>b_groupSize := g\<rparr>)))"
    for g
    using sv [of booking g] by simp
  have 2: "list_all durationOk (snd (saveUpdated v db booking (b\<lparr>b_groupSize := g\<rparr>)))"
    if "reschedule tz courts db rq booking s e = Inr b" for s e b g
    using sv reschedule_keeps [OF that] by blast
  show ?thesis
    using assms Some 1 2
    by (auto simp: updateBooking_def split: option.splits sum.splits)
qed

lemma createRecurring_durationOk:
  assumes "createRecurring tz c db b p = Some (r, db')" and "list_all durationOk db"
  shows "list_all durationOk db' \<and>
         (\<forall>nb cs. r = Created nb cs \<longrightarrow> durationOk nb \<and> list_all durationOk cs)"
proof -
  let ?parent = "fst (saveNew db (b\<lparr>b_recurringPattern := Some p\<rparr>))"
  let ?db1 = "snd (saveNew db (b\<lparr>b_recurringPattern := Some p\<rparr>))"
  have p_ok: "durationOk ?parent" and db1_ok: "list_all durationOk ?db1"
    using saveNew_durationOk assms(2) by blast+
  have gen: "list_all durationOk cs \<and> list_all durationOk db2"
    if "generateRecurringBookings tz ?db1 ?parent c = Some (cs, db2)" for cs db2
    using that
      recurringLoop_durationOk
        [of tz _ ?parent "c_id c" "b_startTime ?parent" 0 "[]" ?db1 "(cs, db2)"]
      db1_ok
    by (auto simp: generateRecurringBookings_def)
  have upd: "durationOk (?parent\<lparr>b_recurringBookings := ids\<rparr>)" for ids
    using p_ok by (simp add: durationOk_def roundedMinutes_def exactMinutes_def)
  have fin:
    "durationOk (fst (saveExisting db2 (?parent\<lparr>b_recurringBookings := ids\<rparr>))) \<and>
     list_all durationOk (snd (saveExisting db2 (?parent\<lparr>b_recurringBookings := ids\<rparr>)))"
    if "list_all durationOk db2" for db2 ids
    using saveExisting_durationOk [of "?parent\<lparr>b_recurringBookings := ids\<rparr>" db2] upd that
    by blast
  show ?thesis
    using assms db1_ok gen fin
    by (auto simp: createRecurring_def case_prod_beta split: if_splits option.splits)
qed

lemma createBooking_durationOk:
  assumes "createBooking tz now courts db rq = Some (r, db')" and "list_all durationOk db"
  shows "list_all durationOk db' \<and>
         (\<forall>nb cs. r = Created nb cs \<longrightarrow> durationOk nb \<and> list_all durationOk cs)"
proof -
  have single: "durationOk (fst (saveNew db b)) \<and> list_all durationOk (snd (saveNew db b))"
    for b
    using saveNew_durationOk assms(2) by blast
  show ?thesis
    using assms single createRecurring_durationOk [of tz _ db _ _ r db']
    by (auto simp: createBooking_def case_prod_beta
          split: if_splits option.splits availability.splits bookingType.splits)
qed

lemma whole_minutes:
  assumes "msPerMinute dvd d"
  shows "of_int (mathRound (of_int d / of_int msPerMinute))
           = (of_int d :: rat) / of_int msPerMinute"
proof -
  obtain k where k: "d = msPerMinute * k" using assms by (auto simp: dvd_def)
  have "(of_int d :: rat) / of_int msPerMinute = of_int k"
    by (simp add: k msPerMinute_def)
  moreover have "\<lfloor>(of_int k :: rat) + 1 / 2\<rfloor> = k"
    by (rule floor_unique) simp_all
  ultimately show ?thesis by (simp add: mathRound_def)
qed

lemma isAvailableForSlot_sample_10:
  "isAvailableForSlot 0 sampleCourt (clock 10 0) e = Available"
  by (simp add: isAvailableForSlot_def sampleCourt_def openDay_def timeStr_defs)

lemma createBooking_half_minute:
  "createBooking 0 0 sampleCourts [] (sampleRequest (clock 10 0) (clock 11 0 + 30000))
     = Some (Created halfMinuteBooking [], [halfMinuteBooking])"
  apply (simp add: createBooking_def createBookingValidation_def sampleRequest_def
      patternValid_def sampleCourts_def isAvailableForSlot_sample_10)
  apply (simp add: sampleCourt_def checkConflicts_def userActiveBookings_def saveNew_def
      newBooking_def freshId_def preSave_def timesModified_def calculatePrice_def
      effectiveRate_def applicableRules_def ruleApplies_def peakRule_def optionsGiven_def
      truthyStr_def orDefault_def mathRound_def halfMinuteBooking_def Let_def)
  apply (simp add: timeStr_defs)
  done

text \<open>
  C9, as the claim states it, fails: a booking from 10:00:00 to 11:00:30 is stored with
  duration 61, while its end minus its start is 60.5 minutes.
\<close>

theorem duration_not_exact:
  "createBooking 0 0 sampleCourts [] (sampleRequest (clock 10 0) (clock 11 0 + 30000))
     = Some (Created halfMinuteBooking [], [halfMinuteBooking])
   \<and> b_duration halfMinuteBooking = Some 61
   \<and> exactMinutes halfMinuteBooking = 121 / 2"
  using createBooking_half_minute
  by (simp add: halfMinuteBooking_def exactMinutes_def clock_def msPerHour_def msPerMinute_def)

text \<open>
  C9, amended. The pre-save hook stores \<open>Math.round\<close> of the difference in minutes
  whenever a time changed (always for a new document). So in a store whose bookings all carry
  the rounded difference, creation (single or recurring, parent and occurrences), reschedule
  and check-in leave a store whose bookings all carry it; and the stored duration is the exact
  difference whenever the difference is a whole number of minutes.
\<close>

theorem duration_rounded:
  assumes "list_all durationOk db"
  shows "(\<forall>old b. timesModified old b \<longrightarrow> durationOk (preSave old b))
       \<and> (\<forall>r db'. createBooking tz now courts db rq = Some (r, db') \<longrightarrow>
             list_all durationOk db' \<and>
             (\<forall>nb cs. r = Created nb cs \<longrightarrow> durationOk nb \<and> list_all durationOk cs))
       \<and> list_all durationOk (snd (updateBooking v tz now courts db ur))
       \<and> list_all durationOk (snd (checkIn now db cr))
       \<and> (\<forall>b. durationOk b \<and> msPerMinute dvd (b_endTime b - b_startTime b) \<longrightarrow>
             map_option of_int (b_duration b) = Some (exactMinutes b))"
proof (intro conjI)
  show "\<forall>old b. timesModified old b \<longrightarrow> durationOk (preSave old b)"
    using preSave_durationOk by blast
  show "\<forall>r db'. createBooking tz now courts db rq = Some (r, db') \<longrightarrow>
          list_all durationOk db' \<and>
          (\<forall>nb cs. r = Created nb cs \<longrightarrow> durationOk nb \<and> list_all durationOk cs)"
    using createBooking_durationOk [OF _ assms] by blast
  show "list_all durationOk (snd (updateBooking v tz now courts db ur))"
    using updateBooking_durationOk [OF assms] .
  show "list_all durationOk (snd (checkIn now db cr))"
    using checkIn_durationOk [OF assms] .
  show "\<forall>b. durationOk b \<and> msPerMinute dvd (b_endTime b - b_startTime b) \<longrightarrow>
          map_option of_int (b_duration b) = Some (exactMinutes b)"
  proof (intro allI impI)
    fix b assume a: "durationOk b \<and> msPerMinute dvd (b_endTime b - b_startTime b)"
    have "of_int (roundedMinutes b) = exactMinutes b"
      unfolding roundedMinutes_def exactMinutes_def using whole_minutes a by blast
    then show "map_option of_int (b_duration b) = Some (exactMinutes b)"
      using a by (simp add: durationOk_def)
  qed
qed

theorem duration_rounded_witness:
  "list_all durationOk [] \<and> list_all durationOk [halfMinuteBooking]
   \<and> roundedMinutes halfMinuteBooking = 61"
proof -
  have e: "list_all durationOk []" by simp
  note t = duration_rounded
    [OF e, of 0 0 sampleCourts "sampleRequest (clock 10 0) (clock 11 0 + 30000)"]
  note cr = t [THEN conjunct2, THEN conjunct1]
  have 1: "list_all durationOk [halfMinuteBooking]"
    using cr createBooking_half_minute by blast
  then have "roundedMinutes halfMinuteBooking = 61"
    by (simp add: durationOk_def halfMinuteBooking_def)
  then show ?thesis using e 1 by blast
qed

section \<open>Check-in\<close>

lemma minutes_gt:
  "((of_int x :: rat) / of_int msPerMinute > of_int k) = (x > k * msPerMinute)"
proof -
  have "((of_int x :: rat) / of_int msPerMinute > of_int k)
          = (of_int k * of_int msPerMinute < (of_int x :: rat))"
    by (simp add: msPerMinute_def pos_less_divide_eq)
  also have "\<dots> = (k * msPerMinute < x)"
    by (metis of_int_less_iff of_int_mult)
  finally show ?thesis .
qed

lemma saveExisting_same_times:
  assumes "find (\<lambda>x. b_id x = b_id b) db = Some x"
    and "b_startTime b = b_startTime x" and "b_endTime b = b_endTime x"
  shows "saveExisting db b = (b, map (\<lambda>y. if b_id y = b_id b then b else y) db)"
  using assms by (simp add: saveExisting_def preSave_def timesModified_def Let_def)

text \<open>
  C8, as the claim states it, fails: an hour after the start of a confirmed booking, outside
  the 15 minutes before the start, check-in succeeds.
\<close>

theorem checkIn_after_start:
  "checkIn (clock 11 0) [sampleBooking 1 1 (clock 10 0) (clock 12 0) Confirmed]
       \<lparr>ci_user = 7, ci_role = User, ci_id = 1\<rparr>
     = (Ok (checkedIn (clock 11 0) 7 (sampleBooking 1 1 (clock 10 0) (clock 12 0) Confirmed)),
        [checkedIn (clock 11 0) 7 (sampleBooking 1 1 (clock 10 0) (clock 12 0) Confirmed)])
   \<and> \<not> (clock 10 0 - 15 * msPerMinute \<le> clock 11 0 \<and> clock 11 0 \<le> clock 10 0)"
  by (simp add: checkIn_def sampleBooking_def checkedIn_def saveExisting_def preSave_def
      timesModified_def clock_def monday_def msPerHour_def msPerMinute_def Let_def)

text \<open>
  C8, amended. Check-in succeeds exactly when the booking exists, the requester is its user
  or staff, its status is confirmed and the clock is no earlier than 15 minutes before the
  start; there is no upper limit, so it also succeeds at and after the start. On success the
  booking gets status in-progress and the check-in time and verifier, and nothing else in the
  store changes; otherwise the request is rejected and the store is unchanged.
\<close>

theorem checkIn_window:
  "(isOk (fst (checkIn now db rq)) = checkInAllowed now db rq)
   \<and> (\<not> checkInAllowed now db rq \<longrightarrow> snd (checkIn now db rq) = db)
   \<and> (checkInAllowed now db rq \<longrightarrow>
        (\<exists>b. find (\<lambda>b. b_id b = ci_id rq) db = Some b \<and>
             checkIn now db rq =
               (Ok (checkedIn now (ci_user rq) b),
                map (\<lambda>x. if b_id x = ci_id rq then checkedIn now (ci_user rq) b else x) db)))"
proof (cases "find (\<lambda>b. b_id b = ci_id rq) db")
  case None
  then show ?thesis by (simp add: checkIn_def checkInAllowed_def isOk_def)
next
  case (Some b)
  have idb: "b_id b = ci_id rq" using Some find_id by blast
  have t: "((of_int (b_startTime b - now) :: rat) / of_int msPerMinute > 15)
             = (b_startTime b - now > 15 * msPerMinute)"
    using minutes_gt [of 15 "b_startTime b - now"] by simp
  have f: "find (\<lambda>x. b_id x = b_id (checkedIn now (ci_user rq) b)) db = Some b"
    using Some idb by (simp add: checkedIn_def)
  have s: "saveExisting db (checkedIn now (ci_user rq) b)
             = (checkedIn now (ci_user rq) b,
                map (\<lambda>x. if b_id x = ci_id rq then checkedIn now (ci_user rq) b else x) db)"
    using saveExisting_same_times [OF f] idb by (simp add: checkedIn_def)
  show ?thesis
    using Some t s
    by (auto simp: checkIn_def checkInAllowed_def isOk_def checkedIn_def)
qed

theorem checkIn_window_witness:
  "checkInAllowed (clock 9 50) [sampleBooking 1 1 (clock 10 0) (clock 12 0) Confirmed]
       \<lparr>ci_user = 7, ci_role = User, ci_id = 1\<rparr>
   \<and> checkIn (clock 9 50) [sampleBooking 1 1 (clock 10 0) (clock 12 0) Confirmed]
         \<lparr>ci_user = 7, ci_role = User, ci_id = 1\<rparr>
       = (Ok (checkedIn (clock 9 50) 7 (sampleBooking 1 1 (clock 10 0) (clock 12 0) Confirmed)),
          [checkedIn (clock 9 50) 7 (sampleBooking 1 1 (clock 10 0) (clock 12 0) Confirmed)])
   \<and> \<not> checkInAllowed (clock 9 40) [sampleBooking 1 1 (clock 10 0) (clock 12 0) Confirmed]
         \<lparr>ci_user = 7, ci_role = User, ci_id = 1\<rparr>
   \<and> snd (checkIn (clock 9 40) [sampleBooking 1 1 (clock 10 0) (clock 12 0) Confirmed]
         \<lparr>ci_user = 7, ci_role = User, ci_id = 1\<rparr>)
       = [sampleBooking 1 1 (clock 10 0) (clock 12 0) Confirmed]"
proof -
  let ?b = "sampleBooking 1 1 (clock 10 0) (clock 12 0) Confirmed"
  let ?rq = "\<lparr>ci_user = 7, ci_role = User, ci_id = 1\<rparr>"
  have a: "checkInAllowed (clock 9 50) [?b] ?rq"
    by (simp add: checkInAllowed_def sampleBooking_def clock_def msPerHour_def msPerMinute_def)
  have n: "\<not> checkInAllowed (clock 9 40) [?b] ?rq"
    by (simp add: checkInAllowed_def sampleBooking_def clock_def msPerHour_def msPerMinute_def)
  have f: "find (\<lambda>b. b_id b = ci_id ?rq) [?b] = Some ?b"
    by (simp add: sampleBooking_def)
  note yes = checkIn_window [of "clock 9 50" "[?b]" ?rq, THEN conjunct2, THEN conjunct2]
  note no = checkIn_window [of "clock 9 40" "[?b]" ?rq, THEN conjunct2, THEN conjunct1]
  from yes a obtain b where b: "find (\<lambda>b. b_id b = ci_id ?rq) [?b] = Some b"
    and r: "checkIn (clock 9 50) [?b] ?rq =
              (Ok (checkedIn (clock 9 50) (ci_user ?rq) b),
               map (\<lambda>x. if b_id x = ci_id ?rq then checkedIn (clock 9 50) (ci_user ?rq) b else x)
                 [?b])"
    by blast
  have "b = ?b" using b f by simp
  then have 1: "checkIn (clock 9 50) [?b] ?rq
                  = (Ok (checkedIn (clock 9 50) 7 ?b), [checkedIn (clock 9 50) 7 ?b])"
    using r by (simp add: sampleBooking_def)
  have 2: "snd (checkIn (clock 9 40) [?b] ?rq) = [?b]" using no n by blast
  show ?thesis using a 1 n 2 by blast
qed

section \<open>No double booking\<close>






section \<open>Clock times as text\<close>

text \<open>
  Zero-padded \<open>HH:MM\<close> strings are ordered as the clock times they denote, so for
  operating hours written that way the string comparisons of the source are comparisons of
  clock times.
\<close>

lemma of_char_digit: "n < 10 \<Longrightarrow> (of_char (digit n) :: nat) = 48 + n"
  by (simp add: digit_def)
lemma digit_less: "a < 10 \<Longrightarrow> b < 10 \<Longrightarrow> (digit a < digit b) = (a < b)"
  by (simp add: less_char_def of_char_digit)
lemma digit_eq:
  assumes "a < 10" and "b < 10"
  shows "(digit a = digit b) = (a = b)"
proof
  assume "digit a = digit b"
  then have "(of_char (digit a) :: nat) = of_char (digit b)" by (rule arg_cong)
  then have "48 + a = 48 + b"
    unfolding of_char_digit [OF assms(1)] of_char_digit [OF assms(2)] .
  then show "a = b" by (rule add_left_imp_eq)
next
  assume "a = b" then show "digit a = digit b" by (rule arg_cong)
qed

lemma lex2:
  assumes "r < 10" and "r' < 10"
  shows "((10 * q + r :: nat) < 10 * q' + r') = (q < q' \<or> q = q' \<and> r < r')"
  using assms by linarith

lemma two_digits_less:
  "((a::nat) < b) = (a div 10 < b div 10 \<or> a div 10 = b div 10 \<and> a mod 10 < b mod 10)"
  using lex2 [of "a mod 10" "b mod 10" "a div 10" "b div 10"] by simp

lemma two_digits_eq:
  "((a::nat) = b) = (a div 10 = b div 10 \<and> a mod 10 = b mod 10)"
  by (metis div_mult_mod_eq)

lemma pad2_less:
  assumes "a < 100" and "b < 100"
  shows "(pad2 a @ xs < pad2 b @ ys) = (a < b \<or> a = b \<and> xs < ys)"
proof -
  have d: "a div 10 < 10" "b div 10 < 10" "a mod 10 < 10" "b mod 10 < 10"
    using assms by simp_all
  have "(pad2 a @ xs < pad2 b @ ys) =
      (a div 10 < b div 10 \<or> a div 10 = b div 10 \<and>
         (a mod 10 < b mod 10 \<or> a mod 10 = b mod 10 \<and> xs < ys))"
    by (simp add: pad2_def digit_less [OF d(1,2)] digit_less [OF d(3,4)]
        digit_eq [OF d(1,2)] digit_eq [OF d(3,4)])
  also have "\<dots> = (a < b \<or> a = b \<and> xs < ys)"
    unfolding two_digits_less [of a b] two_digits_eq [of a b] by blast
  finally show ?thesis .
qed

lemma hhmm_less:
  assumes "h < 100" and "m < 100" and "h' < 100" and "m' < 100"
  shows "(hhmm h m < hhmm h' m') = (h < h' \<or> h = h' \<and> m < m')"
  using pad2_less [OF assms(1,3), of "'':'' @ pad2 m" "'':'' @ pad2 m'"]
    pad2_less [OF assms(2,4), of "[]" "[]"]
  by (simp add: hhmm_def)

lemma hhmm_inj:
  assumes "h < 100" and "m < 100" and "h' < 100" and "m' < 100"
  shows "(hhmm h m = hhmm h' m') = (h = h' \<and> m = m')"
  using hhmm_less [OF assms] hhmm_less [OF assms(3,4,1,2)]
  by (metis less_irrefl linorder_neqE_nat)

lemma hhmm_le:
  assumes "h < 100" and "m < 100" and "h' < 100" and "m' < 100"
  shows "(hhmm h m \<le> hhmm h' m') = (h < h' \<or> h = h' \<and> m \<le> m')"
  unfolding le_less hhmm_less [OF assms] hhmm_inj [OF assms] by blast

lemma getHours_lt: "getHours tz t < 24"
proof -
  have "0 \<le> timeInDay tz t" "timeInDay tz t < 86400000"
    by (simp_all add: timeInDay_def msPerDay_def)
  then have "timeInDay tz t div msPerHour < 24" "0 \<le> timeInDay tz t div msPerHour"
    by (simp_all add: msPerHour_def div_less_iff_less_mult pos_imp_zdiv_nonneg_iff)
  then show ?thesis by (simp add: getHours_def)
qed

lemma getMinutes_lt: "getMinutes tz t < 60"
proof -
  have "0 \<le> timeInDay tz t mod msPerHour" "timeInDay tz t mod msPerHour < 3600000"
    by (simp_all add: msPerHour_def)
  then have "(timeInDay tz t mod msPerHour) div msPerMinute < 60"
    "0 \<le> (timeInDay tz t mod msPerHour) div msPerMinute"
    by (simp_all add: msPerMinute_def div_less_iff_less_mult pos_imp_zdiv_nonneg_iff)
  then show ?thesis by (simp add: getMinutes_def)
qed

lemma timeStr_hhmm: "timeStr tz t = hhmm (getHours tz t) (getMinutes tz t)"
  by (simp add: timeStr_def hhmm_def)

lemma lex60:
  assumes "m < 60" and "m' < 60"
  shows "((h::nat) < h' \<or> h = h' \<and> m < m') = (h * 60 + m < h' * 60 + m')"
    and "((h::nat) < h' \<or> h = h' \<and> m \<le> m') = (h * 60 + m \<le> h' * 60 + m')"
  using assms by linarith+

lemma timeStr_less_clock:
  assumes "h < 24" and "m < 60"
  shows "(timeStr tz t < hhmm h m) = (clockMinutes tz t < h * 60 + m)"
    and "(hhmm h m \<le> timeStr tz t) = (h * 60 + m \<le> clockMinutes tz t)"
    and "(hhmm h m < timeStr tz t) = (h * 60 + m < clockMinutes tz t)"
proof -
  have b: "getHours tz t < 100" "getMinutes tz t < 100" "h < 100" "m < 100"
    using getHours_lt [of tz t] getMinutes_lt [of tz t] assms by simp_all
  show "(timeStr tz t < hhmm h m) = (clockMinutes tz t < h * 60 + m)"
    unfolding timeStr_hhmm hhmm_less [OF b] clockMinutes_def
    using lex60(1) [OF getMinutes_lt assms(2)] by blast
  show "(hhmm h m \<le> timeStr tz t) = (h * 60 + m \<le> clockMinutes tz t)"
    unfolding timeStr_hhmm hhmm_le [OF b(3,4,1,2)] clockMinutes_def
    using lex60(2) [OF assms(2) getMinutes_lt] by blast
  show "(hhmm h m < timeStr tz t) = (h * 60 + m < clockMinutes tz t)"
    unfolding timeStr_hhmm hhmm_less [OF b(3,4,1,2)] clockMinutes_def
    using lex60(1) [OF assms(2) getMinutes_lt] by blast
qed








lemma padded_cases:
  assumes "padded s"
  obtains h m where "h < 24" and "m < 60" and "s = hhmm h m"
    and "clockOf s = Some (h * 60 + m)"
proof -
  from assms obtain n where n: "clockOf s = Some n" and s: "s = hhmm (n div 60) (n mod 60)"
    by (auto simp: padded_def split: option.splits)
  from n obtain h m where hm: "h < 24" "m < 60" "n = nat h * 60 + nat m"
    by (auto simp: clockOf_def split: option.splits if_splits)
  have m: "nat m < 60" and h: "nat h < 24" using hm by simp_all
  have d: "n div 60 = nat h" "n mod 60 = nat m" using hm(3) m by simp_all
  show ?thesis
    using that [of "nat h" "nat m"] h m s n d hm(3) by simp
qed

lemma find_mem: "find P xs = Some x \<Longrightarrow> x \<in> set xs"
  by (induction xs) (auto split: if_splits)

lemma clockOf_sample:
  "clockOf ''08:00'' = Some 480" "clockOf ''17:00'' = Some 1020" "clockOf ''20:00'' = Some 1200"
  "clockOf ''21:00'' = Some 1260" "clockOf ''23:00'' = Some 1380" "clockOf ''8:00'' = Some 480"
  "clockOf ''9:00'' = Some 540"
  by (simp_all add: clockOf_def parseHM_def toNumber_def isDigit_def)


lemma clockMinutes_sample:
  "clockMinutes 0 (clock 10 0) = 600" "clockMinutes 0 (clock 18 0) = 1080"
  "clockMinutes 0 (clock 21 0) = 1260" "clockMinutes 0 (clock 22 0) = 1320"
  by (simp_all add: clockMinutes_def clock_def monday_def time_defs)

lemma timeStr_sample:
  "timeStr 0 (clock 10 0) = ''10:00''" "timeStr 0 (clock 18 0) = ''18:00''"
  "timeStr 0 (clock 22 0) = ''22:00''"
  by (simp_all add: timeStr_defs)

section \<open>The slot loop\<close>

lemma slotConflict_overlaps:
  assumes "s < e" and "b_startTime b < b_endTime b"
  shows "slotConflict s e b = overlaps s e (b_startTime b) (b_endTime b)"
  using assms unfolding slotConflict_def overlaps_def by auto

lemma gridSlot_shift:
  "gridSlot openT width bs (Suc k) = gridSlot (openT + width) width bs k"
  by (simp add: gridSlot_def algebra_simps)

lemma slotGrid_empty:
  assumes "closeT - openT < width" and "0 < width"
  shows "slotGrid openT closeT width bs = []"
proof -
  have "(closeT - openT) div width \<le> 0"
  proof (cases "closeT - openT < 0")
    case True
    then show ?thesis using assms(2) div_neg_pos_less0 [of "closeT - openT" width] by simp
  next
    case False
    then show ?thesis using assms(1) div_pos_pos_trivial [of "closeT - openT" width] by simp
  qed
  then show ?thesis by (simp add: slotGrid_def)
qed

lemma slotGrid_step:
  assumes "openT + width \<le> closeT" and "0 < width"
  shows "slotGrid openT closeT width bs
           = gridSlot openT width bs 0 # slotGrid (openT + width) closeT width bs"
proof -
  have d: "(closeT - openT) div width = (closeT - (openT + width)) div width + 1"
    using assms(2) div_add_self2 [of width "closeT - (openT + width)"] by (simp add: algebra_simps)
  have nn: "0 \<le> (closeT - (openT + width)) div width"
    using assms by (simp add: pos_imp_zdiv_nonneg_iff)
  have n: "nat ((closeT - openT) div width) = Suc (nat ((closeT - (openT + width)) div width))"
    using d nn by simp
  show ?thesis
    unfolding slotGrid_def n map_upt_Suc gridSlot_shift ..
qed

lemma slotLoop_grid:
  assumes "0 < interval" and "\<forall>b \<in> set bs. b_startTime b < b_endTime b"
  shows "slotLoop interval closeT bs cur acc
           = Some (acc @ slotGrid cur closeT (interval * 60000) bs)"
proof (induction "nat (closeT - cur)" arbitrary: cur acc rule: less_induct)
  case less
  let ?w = "interval * 60000"
  have w: "0 < ?w" using assms(1) by simp
  show ?case
  proof (cases "cur < closeT")
    case False
    then have "slotGrid cur closeT ?w bs = []" using slotGrid_empty w by simp
    then show ?thesis using False by (subst slotLoop.simps) simp
  next
    case True
    then have m: "nat (closeT - (cur + ?w)) < nat (closeT - cur)" using w by simp
    note IH = less [OF m]
    show ?thesis
    proof (cases "cur + ?w \<le> closeT")
      case le: True
      have av: "list_ex (slotConflict cur (cur + ?w)) bs
                  = list_ex (\<lambda>b. overlaps cur (cur + ?w) (b_startTime b) (b_endTime b)) bs"
        using assms(2) w slotConflict_overlaps [of cur "cur + ?w"]
        by (simp add: list_ex_iff)
      have g: "gridSlot cur ?w bs 0 =
                 \<lparr>sl_startTime = cur, sl_endTime = cur + ?w,
                  sl_available = (\<not> list_ex (slotConflict cur (cur + ?w)) bs)\<rparr>"
        by (simp add: gridSlot_def av)
      show ?thesis
        by (subst slotLoop.simps) (simp add: True le IH slotGrid_step [OF le w] g)
    next
      case gt: False
      then have e1: "slotGrid cur closeT ?w bs = []" using slotGrid_empty w by simp
      have e2: "slotGrid (cur + ?w) closeT ?w bs = []" using gt slotGrid_empty w by simp
      show ?thesis
        by (subst slotLoop.simps) (simp add: True gt IH e1 e2)
    qed
  qed
qed


lemma localDay_setHours: "localDay tz (setHours tz date 0 0 0 0) = localDay tz date"
  by (simp add: setHours_def localDay_def msPerDay_def)

lemma setHours_startDate:
  "setHours tz (setHours tz date 0 0 0 0) h m s ms = setHours tz date h m s ms"
  using localDay_setHours [of tz date] by (simp add: setHours_def)

lemma getDay_startDate: "getDay tz (setHours tz date 0 0 0 0) = getDay tz date"
  using localDay_setHours [of tz date] by (simp add: getDay_def)

lemma dayBookings_valid:
  assumes "\<forall>b \<in> set db. endTime_valid b"
  shows "\<forall>b \<in> set (dayBookings tz db courtId date). b_startTime b < b_endTime b"
  using assms by (auto simp: dayBookings_def endTime_valid_def)

text \<open>
  For a positive interval the loop returns the slot grid; with an interval of zero or less it
  never returns.
\<close>

lemma findAvailableSlots_slotGrid:
  assumes "0 < interval" and "\<forall>b \<in> set db. endTime_valid b" and "courts courtId = Some c"
  shows "findAvailableSlots tz courts db courtId date interval =
     Some (Inr
       (case dayEntry tz c date of
          None \<Rightarrow> []
        | Some oh \<Rightarrow>
            if oh_isClosed oh then []
            else
              (case (parseHM (oh_openTime oh), parseHM (oh_closeTime oh)) of
                 (Some (h1, m1), Some (h2, m2)) \<Rightarrow>
                   slotGrid (setHours tz date h1 m1 0 0) (setHours tz date h2 m2 0 0)
                     (interval * msPerMinute) (dayBookings tz db courtId date)
               | _ \<Rightarrow> [])))"
proof -
  have loop: "slotLoop interval closeT (dayBookings tz db courtId date) cur []
                = Some (slotGrid cur closeT (interval * msPerMinute)
                          (dayBookings tz db courtId date))" for closeT cur
    using slotLoop_grid
      [where bs = "dayBookings tz db courtId date" and closeT = closeT and cur = cur
         and acc = "[]", OF assms(1) dayBookings_valid [OF assms(2)]]
    by (simp add: msPerMinute_def)
  show ?thesis
    by (auto simp: findAvailableSlots_def assms(3) dayEntry_def getDay_startDate
          setHours_startDate loop Let_def split: option.splits)
qed

lemma slotLoop_never_returns:
  assumes "interval \<le> 0" and "cur < closeT"
  shows "slotLoop interval closeT bs cur acc = None"
proof (rule ccontr)
  assume "slotLoop interval closeT bs cur acc \<noteq> None"
  then obtain res where r: "slotLoop interval closeT bs cur acc = Some res" by auto
  have "interval' = interval \<and> closeT' = closeT \<longrightarrow> cur' < closeT \<longrightarrow> False"
    if "slotLoop interval' closeT' bs' cur' acc' = Some res" for interval' closeT' bs' cur' acc'
    apply (rule slotLoop.raw_induct
      [where P = "\<lambda>interval' closeT' bs' cur' acc' res.
         interval' = interval \<and> closeT' = closeT \<longrightarrow> cur' < closeT \<longrightarrow> False",
       OF _ that])
    subgoal premises prems for loop i cl b cu ac rs
    proof (intro impI)
      assume eq: "i = interval \<and> cl = closeT" and lt: "cu < closeT"
      have nx: "cu + i * 60000 < closeT" using eq lt assms(1) by simp
      from prems(2) eq lt obtain ac' where "loop i cl b (cu + i * 60000) ac' = Some rs"
        by (auto split: if_splits)
      from prems(1) [OF this] eq nx show False by blast
    qed
    done
  then show False using r assms(2) by blast
qed

lemma upt_12: "[0..<12] = [0, 1, 2, 3, 4, 5, 6, 7, 8, 9, 10, 11]"
  by code_simp

lemma upt_15: "[0..<15] = [0, 1, 2, 3, 4, 5, 6, 7, 8, 9, 10, 11, 12, 13, 14]"
  by code_simp

lemma parseHM_sample:
  "parseHM ''08:00'' = Some (8, 0)" "parseHM ''20:00'' = Some (20, 0)"
  "parseHM ''23:00'' = Some (23, 0)" "parseHM ''8:00'' = Some (8, 0)"
  by (simp_all add: parseHM_def toNumber_def isDigit_def)

section \<open>Availability\<close>

text \<open>
  For operating hours written as zero-padded \<open>HH:MM\<close>, the comparison of texts that
  \<open>isAvailableForSlot\<close> makes is the comparison of the clock times, and the function makes
  the checks of the specification in their order; the end time is never looked at.
\<close>

lemma withinHours_text:
  assumes "hoursPadded c"
  shows "withinHours tz c s =
     (case dayEntry tz c s of
        None \<Rightarrow> False
      | Some oh \<Rightarrow> oh_openTime oh \<le> timeStr tz s \<and> timeStr tz s < oh_closeTime oh)"
proof (cases "dayEntry tz c s")
  case None
  then show ?thesis by (simp add: withinHours_def)
next
  case (Some oh)
  then have "oh \<in> set (c_operatingHours c)" using find_mem by (simp add: dayEntry_def)
  then have p: "padded (oh_openTime oh)" "padded (oh_closeTime oh)"
    using assms by (simp_all add: hoursPadded_def list_all_iff)
  from p(1) obtain h1 m1 where
    o: "h1 < 24" "m1 < 60" "oh_openTime oh = hhmm h1 m1"
       "clockOf (oh_openTime oh) = Some (h1 * 60 + m1)"
    by (rule padded_cases)
  from p(2) obtain h2 m2 where
    c: "h2 < 24" "m2 < 60" "oh_closeTime oh = hhmm h2 m2"
       "clockOf (oh_closeTime oh) = Some (h2 * 60 + m2)"
    by (rule padded_cases)
  have "withinHours tz c s =
          (h1 * 60 + m1 \<le> clockMinutes tz s \<and> clockMinutes tz s < h2 * 60 + m2)"
    by (simp add: withinHours_def Some o(4) c(4))
  also have "\<dots> = (oh_openTime oh \<le> timeStr tz s \<and> timeStr tz s < oh_closeTime oh)"
    unfolding o(3) c(3) timeStr_less_clock(2) [OF o(1,2)] timeStr_less_clock(1) [OF c(1,2)] ..
  finally show ?thesis by (simp add: Some)
qed

lemma isAvailableForSlot_cascade:
  assumes "hoursPadded c"
  shows "isAvailableForSlot tz c s e = checkedAvailability tz c s"
  unfolding checkedAvailability_def withinHours_text [OF assms]
  by (auto simp: isAvailableForSlot_def openThatDay_def dayEntry_def
        blockingException_def exceptionReason_def split: option.splits)

lemma isAvailableForSlot_end: "isAvailableForSlot tz c s e = isAvailableForSlot tz c s e'"
  by (simp add: isAvailableForSlot_def)

lemma dayEntry_monday:
  "dayEntry 0 sampleCourt (clock 10 0) = Some (openDay 1)"
  "dayEntry 0 earlyCourt (clock 10 0) = Some (earlyDay 1)"
  "dayEntry 0 sampleCourt monday = Some (openDay 1)"
  "dayEntry 0 earlyCourt monday = Some (earlyDay 1)"
  "dayEntry 0 lateCourt monday = Some (lateDay 1)"
  by (simp_all add: dayEntry_def sampleCourt_def earlyCourt_def lateCourt_def openDay_def
      earlyDay_def lateDay_def clock_def monday_def time_defs)

lemma slots_of_empty_day:
  "slotGrid (setHours 0 monday 8 0 0 0) (setHours 0 monday 20 0 0 0) (60 * msPerMinute) []
     = map (\<lambda>h. \<lparr>sl_startTime = clock h 0, sl_endTime = clock (h + 1) 0, sl_available = True\<rparr>)
         [8, 9, 10, 11, 12, 13, 14, 15, 16, 17, 18, 19]"
proof -
  have n: "nat ((setHours 0 monday 20 0 0 0 - setHours 0 monday 8 0 0 0) div (60 * msPerMinute))
             = 12"
    by (simp add: monday_def time_defs)
  show ?thesis
    unfolding slotGrid_def n upt_12
    by (simp add: gridSlot_def clock_def monday_def time_defs)
qed

text \<open>
  C5 does not hold of the code. A court whose entry for Mondays opens at \<open>8:00\<close>, written
  without a leading zero as the pattern of the schema allows, and closes at \<open>20:00\<close>. At
  10:00 on a Monday every check of the claim passes: the court is active, the entry is
  present and not closed, 10:00 lies within the opening hours, and no exception blocks the
  date; the slot enumerator, which reads the same two texts as numbers, offers the slot from
  10:00 to 11:00. But \<open>isAvailableForSlot\<close> compares the text \<open>10:00\<close> with the text
  \<open>8:00\<close> and answers that the start is outside the operating hours. The court that
  writes \<open>08:00\<close> is available at that time.
\<close>

theorem isAvailableForSlot_unpadded_open_time:
  "isAvailableForSlot 0 earlyCourt (clock 10 0) (clock 11 0)
     = Unavailable ''Outside operating hours''
   \<and> checkedAvailability 0 earlyCourt (clock 10 0) = Available
   \<and> c_status earlyCourt = Active
   \<and> openThatDay 0 earlyCourt (clock 10 0)
   \<and> dayEntry 0 earlyCourt (clock 10 0) = Some (earlyDay 1)
   \<and> clockOf (oh_openTime (earlyDay 1)) = Some (8 * 60)
   \<and> clockOf (oh_closeTime (earlyDay 1)) = Some (20 * 60)
   \<and> clockMinutes 0 (clock 10 0) = 10 * 60
   \<and> withinHours 0 earlyCourt (clock 10 0)
   \<and> blockingException earlyCourt (clock 10 0) = None
   \<and> findAvailableSlots 0 earlyCourts [] 1 monday 60 =
       Some (Inr (map (\<lambda>h. \<lparr>sl_startTime = clock h 0, sl_endTime = clock (h + 1) 0,
                              sl_available = True\<rparr>)
                    [8, 9, 10, 11, 12, 13, 14, 15, 16, 17, 18, 19]))
   \<and> isAvailableForSlot 0 sampleCourt (clock 10 0) (clock 11 0) = Available"
proof -
  have code: "isAvailableForSlot 0 earlyCourt (clock 10 0) (clock 11 0)
                = Unavailable ''Outside operating hours''"
    by (simp add: isAvailableForSlot_def earlyCourt_def sampleCourt_def earlyDay_def
        timeStr_defs)
  have st: "c_status earlyCourt = Active" by (simp add: earlyCourt_def sampleCourt_def)
  have op: "openThatDay 0 earlyCourt (clock 10 0)"
    by (simp add: openThatDay_def dayEntry_monday earlyDay_def)
  have co: "clockOf (oh_openTime (earlyDay 1)) = Some (8 * 60)"
    "clockOf (oh_closeTime (earlyDay 1)) = Some (20 * 60)"
    by (simp_all add: earlyDay_def clockOf_sample)
  have cm: "clockMinutes 0 (clock 10 0) = 10 * 60" by (simp add: clockMinutes_sample)
  have wh: "withinHours 0 earlyCourt (clock 10 0)"
    by (simp add: withinHours_def dayEntry_monday co cm)
  have ex: "blockingException earlyCourt (clock 10 0) = None"
    by (simp add: blockingException_def earlyCourt_def sampleCourt_def)
  have spec: "checkedAvailability 0 earlyCourt (clock 10 0) = Available"
    by (simp add: checkedAvailability_def st op wh ex)
  have slots: "findAvailableSlots 0 earlyCourts [] 1 monday 60 =
       Some (Inr (map (\<lambda>h. \<lparr>sl_startTime = clock h 0, sl_endTime = clock (h + 1) 0,
                              sl_available = True\<rparr>)
                    [8, 9, 10, 11, 12, 13, 14, 15, 16, 17, 18, 19]))"
  proof -
    have c: "earlyCourts 1 = Some earlyCourt" by (simp add: earlyCourts_def)
    have v: "\<forall>b \<in> set ([] :: store). endTime_valid b" by simp
    have i: "(0::int) < 60" by simp
    note t = findAvailableSlots_slotGrid
      [where interval = 60 and db = "[]" and courts = earlyCourts and courtId = 1
         and c = earlyCourt and tz = 0 and date = monday, OF i v c]
    have cl: "\<not> oh_isClosed (earlyDay 1)" "oh_openTime (earlyDay 1) = ''8:00''"
      "oh_closeTime (earlyDay 1) = ''20:00''"
      by (simp_all add: earlyDay_def)
    have db: "dayBookings 0 [] 1 monday = []" by (simp add: dayBookings_def)
    show ?thesis
      using t
      by (simp only: dayEntry_monday cl parseHM_sample db slots_of_empty_day option.case
          prod.case if_False)
  qed
  show ?thesis
    using code spec st op dayEntry_monday(2) co cm wh ex slots isAvailableForSlot_sample_10
    by simp
qed

section \<open>Pricing\<close>





lemma sort_key_Cons_hd:
  "sort_key f (x # xs) =
     (case sort_key f xs of [] \<Rightarrow> [x] | h # t \<Rightarrow> if f x \<le> f h then x # h # t else h # insort_key f x t)"
  by (simp split: list.splits)











text \<open>
  Two evaluations of the code. A group discount whose minimum is \<open>null\<close> applies to every
  group size, since \<open>>=\<close> reads \<open>null\<close> as 0; with the minimum absent it applies to
  none. A window written \<open>9:00\<close> to \<open>21:00\<close> does not match a start at 18:00, since
  the text \<open>18:00\<close> is below the text \<open>9:00\<close>: the request is priced at the base
  rate, the same comparison of texts that C5 reports for the opening hours.
\<close>

lemma calculatePrice_null_minimum:
  "calculatePrice 0 groupCourt (clock 10 0) (clock 11 0) singleOptions = 900"
  "calculatePrice 0
     (groupCourt\<lparr>c_discountRules := [nullGroupDiscount\<lparr>dr_minGroupSize := Undefined\<rparr>]\<rparr>)
     (clock 10 0) (clock 11 0) singleOptions = 1000"
  by (simp_all add: calculatePrice_def effectiveRate_def applicableRules_def ruleApplies_def
      groupCourt_def sampleCourt_def peakRule_def nullGroupDiscount_def singleOptions_def
      optionsGiven_def truthyStr_def truthyNum_def truthyBool_def discountApplies_def jsGe_def
      toNum_def applyDiscount_def timeStr_defs)

lemma calculatePrice_unpadded_window:
  "calculatePrice 0 unpaddedPeakCourt (clock 18 0) (clock 20 0) noOptions = 2000"
  "\<not> windowsPadded unpaddedPeakCourt"
  by (simp_all add: calculatePrice_def effectiveRate_def applicableRules_def ruleApplies_def
      unpaddedPeakCourt_def sampleCourt_def peakRule_def noOptions_def optionsGiven_def
      truthyStr_def truthyNum_def truthyBool_def windowsPadded_def boundPadded_def padded_def
      clockOf_sample hhmm_def pad2_def digit_simps timeStr_defs)

section \<open>Slot enumeration\<close>

text \<open>
  The scenario of the specification: on the court open from 08:00 to 20:00, with one
  confirmed booking from 10:00 to 11:00, an interval of 60 minutes gives twelve slots, only
  the one from 10:00 to 11:00 unavailable.
\<close>

lemma findAvailableSlots_scenario:
  "findAvailableSlots 0 sampleCourts oneBooking 1 monday 60 =
     Some (Inr (map (\<lambda>h. \<lparr>sl_startTime = clock h 0, sl_endTime = clock (h + 1) 0,
                            sl_available = (h \<noteq> 10)\<rparr>)
                  [8, 9, 10, 11, 12, 13, 14, 15, 16, 17, 18, 19]))"
proof -
  have v: "\<forall>b \<in> set oneBooking. endTime_valid b"
    by (simp add: oneBooking_def sampleBooking_def endTime_valid_def clock_def msPerHour_def)
  have c: "sampleCourts 1 = Some sampleCourt" by (simp add: sampleCourts_def)
  have i: "(0::int) < 60" by simp
  note t = findAvailableSlots_slotGrid
    [where interval = 60 and db = oneBooking and courts = sampleCourts and courtId = 1
       and c = sampleCourt and tz = 0 and date = monday, OF i v c]
  have db: "dayBookings 0 oneBooking 1 monday = oneBooking"
    by (simp add: dayBookings_def oneBooking_def sampleBooking_def occupying_def clock_def
        monday_def time_defs)
  have n: "nat ((setHours 0 monday 20 0 0 0 - setHours 0 monday 8 0 0 0) div (60 * msPerMinute))
             = 12"
    by (simp add: monday_def time_defs)
  have g: "slotGrid (setHours 0 monday 8 0 0 0) (setHours 0 monday 20 0 0 0)
             (60 * msPerMinute) oneBooking
           = map (\<lambda>h. \<lparr>sl_startTime = clock h 0, sl_endTime = clock (h + 1) 0,
                         sl_available = (h \<noteq> 10)\<rparr>)
               [8, 9, 10, 11, 12, 13, 14, 15, 16, 17, 18, 19]"
    unfolding slotGrid_def n upt_12
    by (simp add: gridSlot_def oneBooking_def sampleBooking_def overlaps_def clock_def
        monday_def time_defs)
  have cl: "\<not> oh_isClosed (openDay 1)" "oh_openTime (openDay 1) = ''08:00''"
    "oh_closeTime (openDay 1) = ''20:00''"
    by (simp_all add: openDay_def)
  show ?thesis
    using t
    by (simp only: dayEntry_monday cl parseHM_sample db g option.case prod.case if_False)
qed

text \<open>
  With an interval of zero, which the handler passes on (it never reads the result of the
  route's validators), the enumeration never returns.
\<close>

lemma findAvailableSlots_zero_interval:
  "findAvailableSlots 0 sampleCourts [] 1 monday 0 = None"
proof -
  have "slotLoop 0 (setHours 0 monday 20 0 0 0) [] (setHours 0 monday 8 0 0 0) [] = None"
    by (rule slotLoop_never_returns) (simp_all add: monday_def time_defs)
  then show ?thesis
    using dayEntry_monday(3)
    by (simp add: findAvailableSlots_def sampleCourts_def dayEntry_def getDay_startDate
        setHours_startDate dayBookings_def openDay_def parseHM_sample Let_def)
qed

lemma isAvailableForSlot_late_22:
  "isAvailableForSlot 0 lateCourt (clock 22 0) e = Available"
  by (simp add: isAvailableForSlot_def lateCourt_def sampleCourt_def lateDay_def timeStr_defs)

lemma floor_150: "\<lfloor>301 / 2 :: rat\<rfloor> = 150"
  by (rule floor_unique) simp_all

lemma createBooking_overnight:
  "createBooking 0 0 lateCourts [] (sampleRequest (clock 22 0) (clock 24 30))
     = Some (Created overnightBooking [], [overnightBooking])"
  apply (simp add: createBooking_def createBookingValidation_def sampleRequest_def
      patternValid_def lateCourts_def isAvailableForSlot_late_22)
  apply (simp add: lateCourt_def sampleCourt_def checkConflicts_def userActiveBookings_def
      saveNew_def newBooking_def freshId_def preSave_def timesModified_def calculatePrice_def
      effectiveRate_def applicableRules_def ruleApplies_def peakRule_def optionsGiven_def
      truthyStr_def truthyNum_def truthyBool_def orDefault_def mathRound_def
      overnightBooking_def Let_def)
  apply (simp add: timeStr_defs floor_150)
  done

text \<open>
  C6 does not hold of the code. On a court open from 08:00 to 23:00, a request for Monday
  22:00 to Tuesday 00:30 (150 minutes, within the court's limits; only its start is checked
  against the opening hours) is accepted and stored as a confirmed booking. The slot
  enumerator for that Monday reads only the bookings that start and end within the day, so it
  does not see this booking and offers the slot from 22:00 to 23:00 as available, although the
  slot overlaps the booking, which occupies the court, and \<open>checkConflicts\<close> reports the
  booking for that very slot.
\<close>

theorem findAvailableSlots_misses_overnight_booking:
  "createBooking 0 0 lateCourts [] (sampleRequest (clock 22 0) (clock 24 30))
     = Some (Created overnightBooking [], [overnightBooking])
   \<and> findAvailableSlots 0 lateCourts [overnightBooking] 1 monday 60 =
       Some (Inr (map (\<lambda>h. \<lparr>sl_startTime = clock h 0, sl_endTime = clock (h + 1) 0,
                              sl_available = True\<rparr>)
                    [8, 9, 10, 11, 12, 13, 14, 15, 16, 17, 18, 19, 20, 21, 22]))
   \<and> b_court overnightBooking = 1
   \<and> occupying (b_status overnightBooking)
   \<and> overlaps (clock 22 0) (clock 23 0)
       (b_startTime overnightBooking) (b_endTime overnightBooking)
   \<and> checkConflicts [overnightBooking] 1 (clock 22 0) (clock 23 0) None = [overnightBooking]"
proof -
  have slots: "findAvailableSlots 0 lateCourts [overnightBooking] 1 monday 60 =
       Some (Inr (map (\<lambda>h. \<lparr>sl_startTime = clock h 0, sl_endTime = clock (h + 1) 0,
                              sl_available = True\<rparr>)
                    [8, 9, 10, 11, 12, 13, 14, 15, 16, 17, 18, 19, 20, 21, 22]))"
  proof -
    have v: "\<forall>b \<in> set [overnightBooking]. endTime_valid b"
      by (simp add: overnightBooking_def endTime_valid_def clock_def msPerHour_def
          msPerMinute_def)
    have c: "lateCourts 1 = Some lateCourt" by (simp add: lateCourts_def)
    have i: "(0::int) < 60" by simp
    note t = findAvailableSlots_slotGrid
      [where interval = 60 and db = "[overnightBooking]" and courts = lateCourts
         and courtId = 1 and c = lateCourt and tz = 0 and date = monday, OF i v c]
    have db: "dayBookings 0 [overnightBooking] 1 monday = []"
      by (simp add: dayBookings_def overnightBooking_def clock_def monday_def time_defs)
    have n: "nat ((setHours 0 monday 23 0 0 0 - setHours 0 monday 8 0 0 0)
                div (60 * msPerMinute)) = 15"
      by (simp add: monday_def time_defs)
    have g: "slotGrid (setHours 0 monday 8 0 0 0) (setHours 0 monday 23 0 0 0)
               (60 * msPerMinute) []
             = map (\<lambda>h. \<lparr>sl_startTime = clock h 0, sl_endTime = clock (h + 1) 0,
                           sl_available = True\<rparr>)
                 [8, 9, 10, 11, 12, 13, 14, 15, 16, 17, 18, 19, 20, 21, 22]"
      unfolding slotGrid_def n upt_15
      by (simp add: gridSlot_def clock_def monday_def time_defs)
    have cl: "\<not> oh_isClosed (lateDay 1)" "oh_openTime (lateDay 1) = ''08:00''"
      "oh_closeTime (lateDay 1) = ''23:00''"
      by (simp_all add: lateDay_def)
    show ?thesis
      using t
      by (simp only: dayEntry_monday cl parseHM_sample db g option.case prod.case if_False)
  qed
  have rest: "b_court overnightBooking = 1" "occupying (b_status overnightBooking)"
    "overlaps (clock 22 0) (clock 23 0)
       (b_startTime overnightBooking) (b_endTime overnightBooking)"
    "checkConflicts [overnightBooking] 1 (clock 22 0) (clock 23 0) None = [overnightBooking]"
    by (simp_all add: overnightBooking_def occupying_def overlaps_def checkConflicts_def
        conflictQuery_def clock_def msPerHour_def msPerMinute_def)
  show ?thesis using createBooking_overnight slots rest by simp
qed

section \<open>Recurring expansion\<close>

lemma addDays_eq: "addDays tz t n = t + n * msPerDay"
proof -
  have "localDay tz t * msPerDay + timeInDay tz t = t + tz"
    by (simp add: localDay_def timeInDay_def)
  then show ?thesis by (simp add: addDays_def algebra_simps)
qed

lemma getDay_addDays_week: "getDay tz (addDays tz t (7 * k)) = getDay tz t"
proof -
  have "localDay tz (t + 7 * k * msPerDay) = localDay tz t + 7 * k"
    by (simp add: localDay_def msPerDay_def)
  moreover have "(x + 7 * k + 4) mod 7 = (x + 4) mod 7" for x :: int
  proof -
    have "x + 7 * k + 4 = (x + 4) + k * 7" by simp
    then show ?thesis by (simp only: mod_mult_self1)
  qed
  ultimately show ?thesis by (simp add: addDays_eq getDay_def)
qed




lemma saveNew_pattern:
  "b_recurringPattern (fst (saveNew db b)) = b_recurringPattern b"
  by (simp add: saveNew_def preSave_def Let_def)





lemma saveNew_times:
  "b_startTime (fst (saveNew db b)) = b_startTime b"
  "b_endTime (fst (saveNew db b)) = b_endTime b"
  "snd (saveNew db b) = db @ [fst (saveNew db b)]"
  by (simp_all add: saveNew_def preSave_def Let_def)







lemma weekly_never_returns:
  assumes f: "rp_frequency p = Some Weekly" and e: "rp_endDate p = None"
    and d: "rp_daysOfWeek p \<noteq> []" and day: "getDay tz cur \<notin> set (rp_daysOfWeek p)"
    and c: "count < maxOccurrences p"
  shows "recurringLoop tz p parent cid cur count acc db = None"
proof (rule ccontr)
  assume "recurringLoop tz p parent cid cur count acc db \<noteq> None"
  then obtain res where r: "recurringLoop tz p parent cid cur count acc db = Some res" by auto
  have nd: "getDay tz (nextOccurrence tz p x) = getDay tz x" for x
    by (simp add: nextOccurrence_def f getDay_addDays_week)
  have "\<exists>cur' count'. (getDay tz cur' = getDay tz cur \<and> count' = count) \<and>
          (\<not> count' < maxOccurrences p \<or> pastEndDate p (nextOccurrence tz p cur'))"
    by (rule recurringLoop_invariant
        [where I = "\<lambda>cur' count' acc db. getDay tz cur' = getDay tz cur \<and> count' = count",
         OF r])
      (use nd d day in \<open>auto simp: dayFiltered_def\<close>)
  then show False using c by (auto simp: pastEndDate_def e)
qed


lemma getDay_clock_10: "getDay 0 (clock 10 0) = 1"
  by (simp add: clock_def monday_def time_defs)

text \<open>
  C10 does not hold of the code. A valid request for a booking on a Monday, recurring weekly
  on Tuesdays only, one occurrence, no end date: the loop advances by seven days, stays on
  Mondays, skips every date and never counts one, so \<open>createBooking\<close> never responds (the
  parent booking is already saved by then).
\<close>

theorem recurring_expansion_never_returns:
  "createBookingValidation 0 stuckRequest
   \<and> createBooking 0 0 sampleCourts [] stuckRequest = None"
proof -
  have v: "createBookingValidation 0 stuckRequest"
    by (simp add: createBookingValidation_def stuckRequest_def sampleRequest_def
        patternValid_def weeklyTuesday_def clock_def monday_def msPerHour_def)
  have gen: "generateRecurringBookings 0 db1 parent sampleCourt = None"
    if "b_recurringPattern parent = Some weeklyTuesday" "b_startTime parent = clock 10 0"
    for parent db1
    using that
      weekly_never_returns [of weeklyTuesday 0 "clock 10 0" 0 parent "c_id sampleCourt" "[]" db1]
      getDay_clock_10
    by (simp add: generateRecurringBookings_def patternOf_def weeklyTuesday_def
        maxOccurrences_def orDefault_def)
  let ?b = "(newBooking 0 sampleCourt stuckRequest)\<lparr>b_recurringPattern := Some weeklyTuesday\<rparr>"
  have st: "b_startTime ?b = clock 10 0"
    by (simp add: newBooking_def stuckRequest_def sampleRequest_def Let_def)
  have g: "generateRecurringBookings 0 (snd (saveNew [] ?b)) (fst (saveNew [] ?b)) sampleCourt
             = None"
    by (rule gen) (simp_all add: saveNew_pattern saveNew_times st)
  have cr: "createRecurring 0 sampleCourt [] (newBooking 0 sampleCourt stuckRequest)
              weeklyTuesday = None"
    using g
    by (simp add: createRecurring_def case_prod_beta sampleCourt_def weeklyTuesday_def
        orDefault_def)
  have "createBooking 0 0 sampleCourts [] stuckRequest
          = createRecurring 0 sampleCourt [] (newBooking 0 sampleCourt stuckRequest)
              weeklyTuesday"
    using v isAvailableForSlot_sample_10
    apply (simp add: createBooking_def sampleCourts_def stuckRequest_def sampleRequest_def
        checkConflicts_def userActiveBookings_def)
    apply (simp add: sampleCourt_def clock_def monday_def msPerHour_def msPerMinute_def)
    done
  then show ?thesis using v cr by simp
qed

end
